theory Spec2Isabelle
  imports Complex_Main
begin

section \<open>Numbers and library functions\<close>

text \<open>
  Python floats (and numpy's float64) are modelled as the reals: rounding, overflow,
  infinities and NaN are outside the model. A Python number that is printed with
  \<^verbatim>\<open>str\<close> keeps the tag of its Python type, because \<^verbatim>\<open>str(0)\<close> and
  \<^verbatim>\<open>str(0.0)\<close> are different texts.
\<close>

datatype pynum = PyInt int | PyFloat real

fun val :: "pynum \<Rightarrow> real" where
  "val (PyInt i) = of_int i"
| "val (PyFloat x) = x"

text \<open>
  Chebyshev polynomials of the first and of the second kind, by the three-term
  recurrence: \<open>T\<^sub>0 = 1\<close>, \<open>T\<^sub>1 = y\<close>, \<open>U\<^sub>0 = 1\<close>, \<open>U\<^sub>1 = 2y\<close>.
\<close>

fun chebT :: "nat \<Rightarrow> real \<Rightarrow> real" where
  "chebT 0 y = 1"
| "chebT (Suc 0) y = y"
| "chebT (Suc (Suc n)) y = 2 * y * chebT (Suc n) y - chebT n y"

fun chebU :: "nat \<Rightarrow> real \<Rightarrow> real" where
  "chebU 0 y = 1"
| "chebU (Suc 0) y = 2 * y"
| "chebU (Suc (Suc n)) y = 2 * y * chebU (Suc n) y - chebU n y"

text \<open>
  \<^verbatim>\<open>numpy.polynomial.chebyshev.chebval(y, c)\<close> is the value at \<open>y\<close> of the series
  \<open>c\<^sub>0 T\<^sub>0 + c\<^sub>1 T\<^sub>1 + ... + c\<^sub>n T\<^sub>n\<close>.
\<close>

definition chebval :: "real \<Rightarrow> real list \<Rightarrow> real" where
  "chebval y c = (\<Sum>k \<leftarrow> [0..<length c]. c ! k * chebT k y)"

text \<open>
  \<^verbatim>\<open>scipy.special.eval_chebyu(n, y)\<close> at an integer degree. The degree \<open>-1\<close> gives 0;
  below that scipy continues the family by \<open>U\<^sub>n = - U\<^sub>-\<^sub>n\<^sub>-\<^sub>2\<close>. The program only asks
  for degrees from \<open>-1\<close> to 8.
\<close>

definition eval_chebyu :: "int \<Rightarrow> real \<Rightarrow> real" where
  "eval_chebyu n y =
     (if 0 \<le> n then chebU (nat n) y
      else if n = - 1 then 0
      else - chebU (nat (- n - 2)) y)"

section \<open>The example parameterization (example.py)\<close>

record elementDict =
  Hss0 :: pynum
  Hsp0 :: pynum
  Hsd0 :: pynum
  Hpp0 :: pynum
  Hpp1 :: pynum
  Hpd0 :: pynum
  Hpd1 :: pynum
  Hdd0 :: pynum
  Hdd1 :: pynum
  Hdd2 :: pynum
  Sss0 :: pynum
  Ssp0 :: pynum
  Ssd0 :: pynum
  Spp0 :: pynum
  Spp1 :: pynum
  Spd0 :: pynum
  Spd1 :: pynum
  Sdd0 :: pynum
  Sdd1 :: pynum
  Sdd2 :: pynum

text \<open>The coefficient tables of \<^verbatim>\<open>PorezagSKF\<close>, in Hartree.\<close>

definition HC_sssigma :: "real list" where
  "HC_sssigma = [-0.4663805, 0.3528951, -0.1402985, 0.0050519,
                 0.0269723, -0.0158810, 0.0036716, 0.0010301,
                 -0.0015546, 0.0008601]"

definition HC_spsigma :: "real list" where
  "HC_spsigma = [0.3395418, -0.2250358, 0.0298224, 0.0653476,
                 -0.0605786, 0.0298962, -0.0099609, 0.0020609,
                 0.0001264, -0.0003381]"

definition HC_ppsigma :: "real list" where
  "HC_ppsigma = [0.2422701, -0.1315258, -0.0372696, 0.0942352,
                 -0.0673216, 0.0316900, -0.0117293, 0.0033519,
                 -0.0004838, -0.0000906]"

definition HC_pppi :: "real list" where
  "HC_pppi = [-0.3793837, 0.3204470, -0.1956799, 0.0883986,
              -0.0300733, 0.0074465, -0.0008563, -0.0004453,
              0.0003842, -0.0001855]"

definition SC_sssigma :: "real list" where
  "SC_sssigma = [0.4728644, -0.3661623, 0.1594782, -0.0204934,
                 -0.0170732, 0.0096695, -0.0007135, -0.0013826,
                 0.0007849, -0.0002005]"

definition SC_spsigma :: "real list" where
  "SC_spsigma = [-0.3662838, 0.2490285, -0.0431248, -0.0584391,
                 0.0492775, -0.0150447, -0.0010758, 0.0027734,
                 -0.0011214, 0.0002303]"

definition SC_ppsigma :: "real list" where
  "SC_ppsigma = [-0.1359608, 0.0226235, 0.1406440, -0.1573794,
                 0.0753818, -0.0108677, -0.0075444, 0.0051533,
                 -0.0013747, 0.0000751]"

definition SC_pppi :: "real list" where
  "SC_pppi = [0.3715732, -0.3070867, 0.1707304, -0.0581555,
              0.0061645, 0.0051460, -0.0032776, 0.0009119,
              -0.0001265, -0.000227]"

text \<open>
  One matrix element of \<^verbatim>\<open>PorezagSKF\<close>: it starts as the Python int 0; inside the
  cutoffs the series value is added and half of the zeroth coefficient subtracted,
  which makes it a float.
\<close>

definition element :: "real \<Rightarrow> real list \<Rightarrow> pynum" where
  "element r c =
     (let aa = 1; b = 7 in
      if r \<ge> aa \<and> r \<le> b
      then (let y = (2 * r - b - aa) / (b - aa)
            in PyFloat (0 + chebval y c - c ! 0 / 2))
      else PyInt 0)"

definition PorezagSKF :: "real \<Rightarrow> elementDict" where
  "PorezagSKF r =
     \<lparr> Hss0 = element r HC_sssigma,
       Hsp0 = element r HC_spsigma,
       Hsd0 = PyInt 0,
       Hpp0 = element r HC_ppsigma,
       Hpp1 = element r HC_pppi,
       Hpd0 = PyInt 0,
       Hpd1 = PyInt 0,
       Hdd0 = PyInt 0,
       Hdd1 = PyInt 0,
       Hdd2 = PyInt 0,
       Sss0 = element r SC_sssigma,
       Ssp0 = element r SC_spsigma,
       Ssd0 = PyInt 0,
       Spp0 = element r SC_ppsigma,
       Spp1 = element r SC_pppi,
       Spd0 = PyInt 0,
       Spd1 = PyInt 0,
       Sdd0 = PyInt 0,
       Sdd1 = PyInt 0,
       Sdd2 = PyInt 0 \<rparr>"

definition VC_rep :: "real list" where
  "VC_rep = [2.2681036, -1.9157174, 1.1677745, -0.5171036,
             0.1529242, -0.0219294, -0.0000002, -0.0000001,
             -0.0000005, 0.0000009]"

text \<open>
  \<^verbatim>\<open>PorezagPair\<close> returns the pair (energy, force). The force is accumulated by the
  loop over \<open>m = 1, ..., 10\<close>; the only use of the result is float arithmetic, so the
  values are kept as reals.
\<close>

definition PorezagPair :: "real \<Rightarrow> real \<times> real" where
  "PorezagPair r =
     (let aa = 1; b = 4.1 in
      if r \<ge> aa \<and> r \<le> b
      then (let y = (2 * r - b - aa) / (b - aa);
                energy = chebval y VC_rep - VC_rep ! 0 / 2;
                dy_by_dr = 2 / (b - aa);
                force = foldl (\<lambda>force m. force +
                          - (VC_rep ! nat (m - 1)) * of_int (m - 1)
                            * eval_chebyu (m - 2) y * dy_by_dr) 0 [1..10]
            in (energy, force))
      else (0, 0))"

text \<open>The derivative of \<open>T\<^sub>k\<close>: \<open>k U\<^sub>k\<^sub>-\<^sub>1\<close>, and 0 for \<open>k = 0\<close>.\<close>

definition dchebT :: "nat \<Rightarrow> real \<Rightarrow> real" where
  "dchebT k y = (if k = 0 then 0 else real k * chebU (k - 1) y)"

section \<open>Python strings and files\<close>

text \<open>
  A Python \<^verbatim>\<open>str\<close> is a \<open>string\<close>; the files here are ASCII. \<^verbatim>\<open>sep.join(xs)\<close>:
\<close>

fun join :: "string \<Rightarrow> string list \<Rightarrow> string" where
  "join sep [] = []"
| "join sep [x] = x"
| "join sep (x # y # ys) = x @ sep @ join sep (y # ys)"

text \<open>
  The ASCII characters that \<^verbatim>\<open>str.split()\<close> takes as white space: tab, line feed,
  vertical tab, form feed, carriage return, the four separators 0x1C to 0x1F, and
  the space.
\<close>

definition isspace :: "char \<Rightarrow> bool" where
  "isspace c = (c \<in> set [CHR 0x09, CHR 0x0A, CHR 0x0B, CHR 0x0C, CHR 0x0D,
                          CHR 0x1C, CHR 0x1D, CHR 0x1E, CHR 0x1F, CHR 0x20])"

text \<open>
  \<^verbatim>\<open>s.split()\<close> with no argument: the maximal runs of characters that are not
  white space. \<open>cur\<close> is the run being read.
\<close>

fun split_from :: "string \<Rightarrow> string \<Rightarrow> string list" where
  "split_from cur [] = (if cur = [] then [] else [cur])"
| "split_from cur (c # cs) =
     (if isspace c
      then (if cur = [] then split_from [] cs else cur # split_from [] cs)
      else split_from (cur @ [c]) cs)"

definition split_ws :: "string \<Rightarrow> string list" where
  "split_ws s = split_from [] s"

text \<open>\<^verbatim>\<open>s.split(sep)\<close> for a separator of one character: always at least one part.\<close>

fun split_at_from :: "char \<Rightarrow> string \<Rightarrow> string \<Rightarrow> string list" where
  "split_at_from sep cur [] = [cur]"
| "split_at_from sep cur (c # cs) =
     (if c = sep then cur # split_at_from sep [] cs
      else split_at_from sep (cur @ [c]) cs)"

definition split_at :: "char \<Rightarrow> string \<Rightarrow> string list" where
  "split_at sep s = split_at_from sep [] s"

text \<open>
  A text file is the string of its characters. Reading in text mode turns every
  \<open>CR LF\<close> and every other \<open>CR\<close> into \<open>LF\<close>; \<^verbatim>\<open>readlines()\<close> then cuts after
  each \<open>LF\<close> and keeps it at the end of its line.
\<close>

fun universal_newlines :: "string \<Rightarrow> string" where
  "universal_newlines [] = []"
| "universal_newlines (c # cs) =
     (if c = CHR 0x0D
      then (case cs of
              [] \<Rightarrow> [CHR 0x0A]
            | d # ds \<Rightarrow> if d = CHR 0x0A then CHR 0x0A # universal_newlines ds
                        else CHR 0x0A # universal_newlines cs)
      else c # universal_newlines cs)"

fun lines_from :: "string \<Rightarrow> string \<Rightarrow> string list" where
  "lines_from cur [] = (if cur = [] then [] else [cur])"
| "lines_from cur (c # cs) =
     (if c = CHR 0x0A then (cur @ [c]) # lines_from [] cs
      else lines_from (cur @ [c]) cs)"

definition readlines :: "string \<Rightarrow> string list" where
  "readlines content = lines_from [] (universal_newlines content)"

text \<open>
  The cells that \<^verbatim>\<open>makeSKF\<close> collects are numbers and one string. Python's
  \<^verbatim>\<open>str\<close> on numbers is a parameter \<open>str\<close> of the model: the shortest decimal text that
  reads back as the same float has no counterpart on the reals. \<^verbatim>\<open>str\<close> of a string
  is the string.
\<close>

datatype cell = Num pynum | Str string

fun pystr :: "(pynum \<Rightarrow> string) \<Rightarrow> cell \<Rightarrow> string" where
  "pystr str (Num v) = str v"
| "pystr str (Str s) = s"

section \<open>Writing the tables\<close>

text \<open>
  The parameterization dictionary, with the keys that \<^verbatim>\<open>makeSKF\<close> and
  \<^verbatim>\<open>makeLAMMPSPairwiseTable\<close> read. The two domains are the two-element lists
  \<open>[r_min, r_max]\<close>; \<open>nGridPoints\<close> is a count.
\<close>

record parameterizationDictionary =
  mass :: pynum
  gridDist :: pynum
  nGridPoints :: nat
  type :: string
  elementFunction :: "real \<Rightarrow> elementDict"
  domainTB :: "pynum \<times> pynum"
  EVec :: "pynum list"
  SPE :: pynum
  UVec :: "pynum list"
  fVec :: "pynum list"
  cVec :: "pynum list"
  pairFunction :: "real \<Rightarrow> real \<times> real"
  domainPair :: "real \<times> real"
  pairKeyword :: string
  pairDescription :: string
  contributor :: string

text \<open>One row of the integral table: the body of the loop over the grid points.\<close>

definition tempLine :: "parameterizationDictionary \<Rightarrow> real \<Rightarrow> pynum list" where
  "tempLine pD r =
     (if r < val (fst (domainTB pD))
      then replicate 20 (PyFloat 1.0)
      else (let eD = elementFunction pD r
            in [Hdd0 eD, Hdd1 eD, Hdd2 eD, Hpd0 eD, Hpd1 eD,
                Hpp0 eD, Hpp1 eD, Hsd0 eD, Hsp0 eD, Hss0 eD,
                Sdd0 eD, Sdd1 eD, Sdd2 eD, Spd0 eD, Spd1 eD,
                Spp0 eD, Spp1 eD, Ssd0 eD, Ssp0 eD, Sss0 eD]))"

text \<open>
  The list of lines that \<^verbatim>\<open>makeSKF\<close> builds, with what it prints on the way: the
  diagnostic of the last branch is printed and the function goes on.
\<close>

definition SKF_lineListList ::
  "parameterizationDictionary \<Rightarrow> string list \<times> cell list list" where
  "SKF_lineListList pD =
     (let dVec = replicate 10 (PyInt 0);
          gridPointsVec = map (\<lambda>i. val (gridDist pD) * real i) [0..<nGridPoints pD];
          lineListList = [[Num (gridDist pD), Num (PyInt (int (nGridPoints pD)))]];
          (printed, lineListList) =
            (if type pD = ''homonuclear''
             then ([],
                   lineListList
                   @ [map Num (EVec pD @ [SPE pD] @ UVec pD @ fVec pD)]
                   @ [map Num ([mass pD] @ cVec pD @ [snd (domainTB pD)] @ dVec)])
             else if type pD = ''heteronuclear''
             then ([],
                   lineListList
                   @ [map Num ([PyInt 12345] @ cVec pD @ [snd (domainTB pD)] @ dVec)])
             else ([''ERROR: parameterization type must be ''
                      @ [CHR 0x22] @ ''heteronuclear'' @ [CHR 0x22],
                    ''       or '' @ [CHR 0x22] @ ''homonuclear'' @ [CHR 0x22]],
                   lineListList));
          lineListList =
            foldl (\<lambda>lineListList r. lineListList @ [map Num (tempLine pD r)])
              lineListList gridPointsVec;
          lineListList = lineListList @ [[Str ''Spline'']];
          lineListList = lineListList @ [[Num (PyInt 1), Num (snd (domainTB pD))]];
          lineListList = lineListList @ [[Num (PyInt 0), Num (PyInt 0), Num (PyInt (- 1))]];
          lineListList = lineListList
            @ [[Num (fst (domainTB pD)), Num (snd (domainTB pD)),
                Num (PyInt 0), Num (PyInt 0), Num (PyInt 0),
                Num (PyInt 0), Num (PyInt 0), Num (PyInt 0)]]
      in (printed, lineListList))"

text \<open>
  The lines before and after the integral table, for the statements below: the
  header (one line, and one or two more for a recognized type) and the spline stub.
\<close>

definition SKF_header :: "parameterizationDictionary \<Rightarrow> cell list list" where
  "SKF_header pD =
     [Num (gridDist pD), Num (PyInt (int (nGridPoints pD)))] #
     (if type pD = ''homonuclear''
      then [map Num (EVec pD @ [SPE pD] @ UVec pD @ fVec pD),
            map Num ([mass pD] @ cVec pD @ [snd (domainTB pD)] @ replicate 10 (PyInt 0))]
      else if type pD = ''heteronuclear''
      then [map Num ([PyInt 12345] @ cVec pD @ [snd (domainTB pD)] @ replicate 10 (PyInt 0))]
      else [])"

definition SKF_spline :: "parameterizationDictionary \<Rightarrow> cell list list" where
  "SKF_spline pD =
     [[Str ''Spline''],
      [Num (PyInt 1), Num (snd (domainTB pD))],
      [Num (PyInt 0), Num (PyInt 0), Num (PyInt (- 1))],
      [Num (fst (domainTB pD)), Num (snd (domainTB pD)),
       Num (PyInt 0), Num (PyInt 0), Num (PyInt 0),
       Num (PyInt 0), Num (PyInt 0), Num (PyInt 0)]]"

text \<open>
  \<^verbatim>\<open>makeSKF\<close>: what is printed, and the strings written to the file one after the
  other. The file holds their concatenation.
\<close>

definition makeSKF ::
  "(pynum \<Rightarrow> string) \<Rightarrow> parameterizationDictionary \<Rightarrow> string list \<times> string list" where
  "makeSKF str pD =
     (let (printed, lineListList) = SKF_lineListList pD
      in (printed,
          map (\<lambda>lineList. join '' '' (map (pystr str) lineList) @ [CHR 0x0A])
            lineListList))"

text \<open>The dictionary that example.py passes to both writers.\<close>

definition PorezagDictionary :: parameterizationDictionary where
  "PorezagDictionary =
     \<lparr> mass = PyFloat 12.01,
       gridDist = PyFloat 0.02,
       nGridPoints = 500,
       type = ''homonuclear'',
       elementFunction = PorezagSKF,
       domainTB = (PyInt 1, PyInt 7),
       EVec = [PyInt 0, PyFloat (- 0.19435511), PyFloat (- 0.50489172)],
       SPE = PyFloat (- 0.04547908),
       UVec = [PyFloat 0.3647, PyFloat 0.3647, PyFloat 0.3647],
       fVec = [PyInt 0, PyInt 2, PyInt 2],
       cVec = [PyInt 0, PyInt 0, PyInt 0, PyInt 0, PyInt 0, PyInt 0, PyInt 0, PyInt 0],
       pairFunction = PorezagPair,
       domainPair = (1.0, 4.1),
       pairKeyword = ''POREZAG_C'',
       pairDescription =
         ''pairwise repulsive potential of Porezag C-C tight binding parameterization'',
       contributor = ''G. H. Brown'' \<rparr>"

text \<open>
  \<^verbatim>\<open>numpy.linspace(start, stop, num)\<close>: \<open>num\<close> points from \<open>start\<close> to \<open>stop\<close>, both
  included, in equal steps of \<open>(stop - start)/(num - 1)\<close>; one point is \<open>start\<close>.
\<close>

definition linspace :: "real \<Rightarrow> real \<Rightarrow> nat \<Rightarrow> real list" where
  "linspace start stop num =
     (if num = 1 then [start]
      else map (\<lambda>i. start + real i * ((stop - start) / real (num - 1))) [0..<num])"

text \<open>
  \<^verbatim>\<open>makeLAMMPSPairwiseTable\<close>: the list of strings handed to \<^verbatim>\<open>writelines\<close>.
  \<open>today\<close> is the date text that \<^verbatim>\<open>datetime.today().strftime('%Y-%m-%d')\<close> gives.
\<close>

definition makeLAMMPSPairwiseTable ::
  "(pynum \<Rightarrow> string) \<Rightarrow> string \<Rightarrow> parameterizationDictionary \<Rightarrow> string list" where
  "makeLAMMPSPairwiseTable str today pD =
     (let ang_per_bohr = 0.529177;
          eV_per_hart = 27.2114;
          r_min = fst (domainPair pD);
          r_max = snd (domainPair pD);
          rValues = linspace r_min r_max (nGridPoints pD);
          lineList = [];
          lineList = lineList @ [''# DATE: '' @ today @ '' UNITS: metal CONTRIBUTOR: ''
                                  @ contributor pD @ [CHR 0x0A]];
          lineList = lineList @ [''# '' @ pairDescription pD @ [CHR 0x0A]];
          lineList = lineList @ [[CHR 0x0A]];
          lineList = lineList @ [pairKeyword pD @ [CHR 0x0A]];
          lineList = lineList @ [''N '' @ str (PyInt (int (nGridPoints pD))) @ [CHR 0x0A]];
          lineList = lineList @ [[CHR 0x0A]]
      in foldl (\<lambda>lineList (i_r, r).
                  (let (energy, force) = pairFunction pD r;
                       r_ang = r * ang_per_bohr;
                       energy_eV = energy * eV_per_hart;
                       force_eV_ang = force * (eV_per_hart / ang_per_bohr);
                       tempValues = [str (PyInt (int i_r + 1)), str (PyFloat r_ang),
                                     str (PyFloat energy_eV), str (PyFloat force_eV_ang)]
                   in lineList @ [join '' '' tempValues @ [CHR 0x0A]]))
           lineList (zip [0..<length rValues] rValues))"

section \<open>Reading a table back (the parsing phase of plotSKF)\<close>

text \<open>
  The Python exceptions that the reader can raise. Python's \<^verbatim>\<open>float\<close> on a string is
  the parameter \<open>float\<close> of the model; \<open>None\<close> stands for its \<^verbatim>\<open>ValueError\<close>.
  \<^verbatim>\<open>int\<close> of a float drops the fraction.
\<close>

datatype error = IndexError | ValueError

definition int_of_float :: "real \<Rightarrow> int" where
  "int_of_float x = (if 0 \<le> x then \<lfloor>x\<rfloor> else \<lceil>x\<rceil>)"

fun mapM :: "('a \<Rightarrow> error + 'b) \<Rightarrow> 'a list \<Rightarrow> error + 'b list" where
  "mapM f [] = Inr []"
| "mapM f (x # xs) =
     (case f x of
        Inl e \<Rightarrow> Inl e
      | Inr y \<Rightarrow> (case mapM f xs of Inl e \<Rightarrow> Inl e | Inr ys \<Rightarrow> Inr (y # ys)))"

definition to_float :: "(string \<Rightarrow> real option) \<Rightarrow> string \<Rightarrow> error + real" where
  "to_float float s = (case float s of None \<Rightarrow> Inl ValueError | Some x \<Rightarrow> Inr x)"

text \<open>
  The expansion of one entry of a line that has an asterisk: \<open>count*value\<close> becomes the
  text of the value, \<open>count\<close> times, with single spaces between.
\<close>

definition expandEntry ::
  "(pynum \<Rightarrow> string) \<Rightarrow> (string \<Rightarrow> real option) \<Rightarrow> string \<Rightarrow> error + string" where
  "expandEntry str float entry =
     (if CHR ''*'' \<in> set entry
      then (let entrySplit = split_at (CHR ''*'') entry
            in case to_float float (entrySplit ! 1) of
                 Inl e \<Rightarrow> Inl e
               | Inr num \<Rightarrow>
                   (case to_float float (entrySplit ! 0) of
                      Inl e \<Rightarrow> Inl e
                    | Inr t \<Rightarrow>
                        (let timesRep = int_of_float t;
                             expandedEntries =
                               join '' '' (replicate (nat timesRep) (str (PyFloat num)))
                         in Inr expandedEntries)))
      else Inr entry)"

definition expandLine ::
  "(pynum \<Rightarrow> string) \<Rightarrow> (string \<Rightarrow> real option) \<Rightarrow> string \<Rightarrow> error + string" where
  "expandLine str float line =
     (if CHR ''*'' \<in> set line
      then (case mapM (expandEntry str float) (split_ws line) of
              Inl e \<Rightarrow> Inl e
            | Inr lineSplit \<Rightarrow> Inr (join '' '' lineSplit))
      else Inr line)"

text \<open>The variable \<^verbatim>\<open>lines\<close>: commas removed, then asterisks expanded.\<close>

definition expandedLines ::
  "(pynum \<Rightarrow> string) \<Rightarrow> (string \<Rightarrow> real option) \<Rightarrow> string \<Rightarrow> error + string list" where
  "expandedLines str float content =
     (let linesAsterisksCommas = readlines content;
          linesAsterisks = map (filter (\<lambda>c. c \<noteq> CHR '','')) linesAsterisksCommas
      in mapM (expandLine str float) linesAsterisks)"

text \<open>
  What this makes of one line of the file, for the statements below: the commas are
  deleted, then the asterisks are expanded.
\<close>

definition readerLine ::
  "(pynum \<Rightarrow> string) \<Rightarrow> (string \<Rightarrow> real option) \<Rightarrow> string \<Rightarrow> error + string" where
  "readerLine str float line = expandLine str float (filter (\<lambda>c. c \<noteq> CHR '','') line)"

text \<open>
  The \<^verbatim>\<open>while\<close> loop that looks for the first line of the integral table; reading
  past the last line is an \<^verbatim>\<open>IndexError\<close>.
\<close>

function firstLineIndex :: "nat \<Rightarrow> string list list \<Rightarrow> nat \<Rightarrow> error + nat" where
  "firstLineIndex integralTableLineLength linesSplit i_line =
     (if length linesSplit \<le> i_line then Inl IndexError
      else if length (linesSplit ! i_line) = integralTableLineLength
      then Inr (if integralTableLineLength = 20 then i_line + 1 else i_line)
      else firstLineIndex integralTableLineLength linesSplit (i_line + 1))"
  by pat_completeness auto
termination
  by (relation "measure (\<lambda>(k, linesSplit, i_line). length linesSplit - i_line)") auto

declare firstLineIndex.simps [simp del]

text \<open>The \<^verbatim>\<open>for\<close> loop over all lines: the last line with a token \<open>Spline\<close> wins.\<close>

definition afterLineIndex :: "string list list \<Rightarrow> nat" where
  "afterLineIndex linesSplit =
     foldl (\<lambda>afterLineIndex (i_line, splitLine).
              if ''Spline'' \<in> set splitLine then i_line else afterLineIndex)
       0 (zip [0..<length linesSplit] linesSplit)"

text \<open>
  \<^verbatim>\<open>float(line.split()[0])\<close> for the line \<open>i\<close> of \<open>lines\<close>.
\<close>

definition first_number ::
  "(string \<Rightarrow> real option) \<Rightarrow> string list \<Rightarrow> nat \<Rightarrow> error + real" where
  "first_number float lines i =
     (if length lines \<le> i then Inl IndexError
      else (case split_ws (lines ! i) of
              [] \<Rightarrow> Inl IndexError
            | entry # _ \<Rightarrow> to_float float entry))"

text \<open>
  \<^verbatim>\<open>numpy.array\<close> of the rows, then the two column slices. No row at all gives a
  one-dimensional array, on which the column slice is an \<^verbatim>\<open>IndexError\<close>; rows of
  different lengths are refused by \<^verbatim>\<open>numpy.array\<close>.
\<close>

definition halves ::
  "nat \<Rightarrow> real list list \<Rightarrow> error + (real list list \<times> real list list)" where
  "halves integralTableLineLength integralTable =
     (case integralTable of
        [] \<Rightarrow> Inl IndexError
      | row # rows \<Rightarrow>
          if list_ex (\<lambda>row'. length row' \<noteq> length row) rows then Inl ValueError
          else Inr (map (take (integralTableLineLength div 2)) integralTable,
                    map (drop (integralTableLineLength div 2)) integralTable))"

text \<open>
  The parsing phase of \<^verbatim>\<open>plotSKF\<close>, from the content of the file to the grid
  distance and the two tables \<open>HTable\<close> and \<open>STable\<close> that are plotted.
\<close>

definition plotSKF_tables ::
  "(pynum \<Rightarrow> string) \<Rightarrow> (string \<Rightarrow> real option) \<Rightarrow> string
     \<Rightarrow> error + (real \<times> real list list \<times> real list list)" where
  "plotSKF_tables str float content =
     (case expandedLines str float content of
        Inl e \<Rightarrow> Inl e
      | Inr lines \<Rightarrow>
          if lines = [] then Inl IndexError
          else
            (let extended = (CHR ''@'' \<in> set (lines ! 0));
                 integralTableLineLength = (if extended then 40 else 20)
             in case first_number float lines (if extended then 1 else 0) of
                  Inl e \<Rightarrow> Inl e
                | Inr gridDistRead \<Rightarrow>
                    (let linesSplit = map split_ws lines
                     in case firstLineIndex integralTableLineLength linesSplit 0 of
                          Inl e \<Rightarrow> Inl e
                        | Inr first \<Rightarrow>
                            (let after = afterLineIndex linesSplit;
                                 integralTableLines =
                                   take (after - first) (drop first linesSplit)
                             in case mapM (mapM (to_float float)) integralTableLines of
                                  Inl e \<Rightarrow> Inl e
                                | Inr integralTable \<Rightarrow>
                                    (case halves integralTableLineLength integralTable of
                                       Inl e \<Rightarrow> Inl e
                                     | Inr (HTable, STable) \<Rightarrow>
                                         Inr (gridDistRead, HTable, STable))))))"

text \<open>One data row of the pairwise table, for the statements below.\<close>

definition pairRow ::
  "(pynum \<Rightarrow> string) \<Rightarrow> parameterizationDictionary \<Rightarrow> nat \<Rightarrow> real \<Rightarrow> string" where
  "pairRow str pD i r =
     join '' '' [str (PyInt (int i + 1)), str (PyFloat (r * 0.529177)),
                 str (PyFloat (fst (pairFunction pD r) * 27.2114)),
                 str (PyFloat (snd (pairFunction pD r) * (27.2114 / 0.529177)))]
     @ [CHR 0x0A]"

section \<open>Notions for the statements about the reader\<close>

text \<open>
  A token: a non-empty string without white space, which \<^verbatim>\<open>split()\<close> returns as it
  is. The text of a number is moreover free of the characters that the reader gives a
  meaning to (comma, asterisk, at sign) and is not the marker \<open>Spline\<close>; Python's
  \<^verbatim>\<open>str\<close> writes numbers with digits, a sign, a point and an exponent only.
\<close>

definition plain_token :: "string \<Rightarrow> bool" where
  "plain_token t = (t \<noteq> [] \<and> list_all (\<lambda>c. \<not> isspace c) t)"

definition number_text :: "string \<Rightarrow> bool" where
  "number_text t =
     (plain_token t
      \<and> list_all (\<lambda>c. c \<noteq> CHR '','' \<and> c \<noteq> CHR ''*'' \<and> c \<noteq> CHR ''@'') t
      \<and> t \<noteq> ''Spline'')"

text \<open>
  A cell of the form \<open>count*value\<close>: two parts around one asterisk, both read by
  \<^verbatim>\<open>float\<close>, and the text that \<^verbatim>\<open>str\<close> gives to the value is a token that reads
  back as the value.
\<close>

definition repeat_cell ::
  "(pynum \<Rightarrow> string) \<Rightarrow> (string \<Rightarrow> real option) \<Rightarrow> string \<Rightarrow> bool" where
  "repeat_cell str float entry =
     (case split_at (CHR ''*'') entry of
        [count, value] \<Rightarrow>
          (case (float count, float value) of
             (Some t, Some x) \<Rightarrow>
               plain_token (str (PyFloat x)) \<and> float (str (PyFloat x)) = Some x
           | _ \<Rightarrow> False)
      | _ \<Rightarrow> False)"

text \<open>
  The explicitly written equivalent of an entry: \<open>count\<close> copies of the text of the
  value for \<open>count*value\<close>, the entry itself otherwise; and the numbers it stands
  for, as \<^verbatim>\<open>float\<close> reads them.
\<close>

definition explicit_entries ::
  "(pynum \<Rightarrow> string) \<Rightarrow> (string \<Rightarrow> real option) \<Rightarrow> string \<Rightarrow> string list" where
  "explicit_entries str float entry =
     (if CHR ''*'' \<in> set entry
      then (let parts = split_at (CHR ''*'') entry
            in replicate (nat (int_of_float (the (float (parts ! 0)))))
                 (str (PyFloat (the (float (parts ! 1))))))
      else [entry])"

definition cell_values :: "(string \<Rightarrow> real option) \<Rightarrow> string \<Rightarrow> real option list" where
  "cell_values float entry =
     (if CHR ''*'' \<in> set entry
      then (let parts = split_at (CHR ''*'') entry
            in replicate (nat (int_of_float (the (float (parts ! 0))))) (float (parts ! 1)))
      else [float entry])"

text \<open>
  For the examples: the values of Python's \<^verbatim>\<open>str\<close> and \<^verbatim>\<open>float\<close> on the few numbers
  and texts that occur in them.
\<close>

definition str_sample :: "pynum \<Rightarrow> string" where
  "str_sample v =
     (case map_of
        [(PyInt 0, ''0''), (PyInt 1, ''1''), (PyInt 2, ''2''), (PyInt 7, ''7''),
         (PyInt (- 1), ''-1''), (PyInt 12345, ''12345''),
         (PyFloat 0, ''0.0''), (PyFloat 1, ''1.0''), (PyFloat 2, ''2.0''),
         (PyFloat 0.5, ''0.5''), (PyFloat 12.01, ''12.01'')] v of
        Some s \<Rightarrow> s
      | None \<Rightarrow> ''nan'')"

definition float_sample :: "string \<Rightarrow> real option" where
  "float_sample =
     map_of
       [(''0'', 0), (''1'', 1), (''2'', 2), (''3'', 3), (''7'', 7), (''-1'', - 1),
        (''12345'', 12345), (''0.0'', 0), (''1.0'', 1), (''2.0'', 2), (''0.5'', 0.5),
        (''12.01'', 12.01)]"

text \<open>
  A small file in the simple format: the first line, a header line of twenty entries,
  two rows of the integral table, the marker and one line after it.
\<close>

definition sampleLines :: "string list" where
  "sampleLines =
     [''1.0 2'' @ [CHR 0x0A],
      join '' '' (replicate 20 ''7'') @ [CHR 0x0A],
      join '' '' (replicate 10 ''1.0'' @ replicate 10 ''0.5'') @ [CHR 0x0A],
      join '' '' (replicate 10 ''2.0'' @ replicate 10 ''0.0'') @ [CHR 0x0A],
      ''Spline'' @ [CHR 0x0A],
      ''1 7'' @ [CHR 0x0A]]"

definition sampleSKF :: string where
  "sampleSKF = concat sampleLines"

text \<open>
  A small parameterization for the examples of the round trip: two grid points at the
  distances 0 and 1, and an element function with the two values 0.5 and 2.0.
\<close>

definition sampleElements :: "real \<Rightarrow> elementDict" where
  "sampleElements r =
     \<lparr> Hss0 = PyFloat 0.5, Hsp0 = PyInt 0, Hsd0 = PyInt 0, Hpp0 = PyInt 0,
       Hpp1 = PyInt 0, Hpd0 = PyInt 0, Hpd1 = PyInt 0, Hdd0 = PyInt 0,
       Hdd1 = PyInt 0, Hdd2 = PyInt 0,
       Sss0 = PyFloat 2, Ssp0 = PyInt 0, Ssd0 = PyInt 0, Spp0 = PyInt 0,
       Spp1 = PyInt 0, Spd0 = PyInt 0, Spd1 = PyInt 0, Sdd0 = PyInt 0,
       Sdd1 = PyInt 0, Sdd2 = PyInt 0 \<rparr>"

definition sampleDictionary :: parameterizationDictionary where
  "sampleDictionary =
     \<lparr> mass = PyFloat 12.01,
       gridDist = PyFloat 1.0,
       nGridPoints = 2,
       type = ''homonuclear'',
       elementFunction = sampleElements,
       domainTB = (PyInt 1, PyInt 7),
       EVec = [PyInt 0, PyFloat 0.5, PyFloat 0.5],
       SPE = PyFloat 0.5,
       UVec = [PyFloat 0.5, PyFloat 0.5, PyFloat 0.5],
       fVec = [PyInt 0, PyInt 2, PyInt 2],
       cVec = [PyInt 0, PyInt 0, PyInt 0, PyInt 0, PyInt 0, PyInt 0, PyInt 0, PyInt 0],
       pairFunction = PorezagPair,
       domainPair = (1.0, 4.1),
       pairKeyword = ''SAMPLE'',
       pairDescription = ''sample'',
       contributor = ''nobody'' \<rparr>"

text \<open>
  For the round trip: the characters that change nothing in the reader (no line end,
  no comma, no asterisk, no at sign), the line that \<^verbatim>\<open>makeSKF\<close> writes for a list of
  cells, and the cells that occur in its lists.
\<close>

definition clean :: "char \<Rightarrow> bool" where
  "clean c = (c \<noteq> CHR 0x0A \<and> c \<noteq> CHR 0x0D \<and> c \<noteq> CHR '','' \<and> c \<noteq> CHR ''*'' \<and> c \<noteq> CHR ''@'')"

definition render :: "(pynum \<Rightarrow> string) \<Rightarrow> cell list \<Rightarrow> string" where
  "render str lineList = join '' '' (map (pystr str) lineList) @ [CHR 0x0A]"

definition SKF_cell :: "cell \<Rightarrow> bool" where
  "SKF_cell c = (c = Str ''Spline'' \<or> (\<exists>v. c = Num v))"

section \<open>Translating the coordinates\<close>







text \<open>
  numpy's broadcasting on the columns of two arrays with the same number of rows: a
  row of length 1 is stretched. \<open>a + b\<close> needs equal lengths or one of them 1; the
  assignment \<open>target[:, 4:8] = value\<close> needs the value as wide as the slice, or of
  width 1.
\<close>

definition bcol :: "real list \<Rightarrow> nat \<Rightarrow> real" where
  "bcol xs j = (if length xs = 1 then xs ! 0 else xs ! j)"










section \<open>Chebyshev series and their derivative\<close>

lemma chebT_chebU: "chebT (Suc (Suc n)) y = y * chebU (Suc n) y - chebU n y"
proof (induction n y rule: chebT.induct)
  case (3 n y)
  have "chebT (Suc (Suc (Suc (Suc n)))) y
          = 2 * y * chebT (Suc (Suc (Suc n))) y - chebT (Suc (Suc n)) y"
    by (simp only: chebT.simps)
  also have "\<dots> = 2 * y * (y * chebU (Suc (Suc n)) y - chebU (Suc n) y)
                      - (y * chebU (Suc n) y - chebU n y)"
    by (simp only: "3.IH")
  also have "\<dots> = y * chebU (Suc (Suc (Suc n))) y - chebU (Suc (Suc n)) y"
    by (simp add: algebra_simps)
  finally show ?case .
qed (simp_all add: algebra_simps)

lemma DERIV_chebT: "(chebT k has_field_derivative dchebT k y) (at y)"
proof (induction k y rule: chebT.induct)
  case (1 y)
  show ?case by (simp add: dchebT_def)
next
  case (2 y)
  show ?case by (simp add: dchebT_def)
next
  case (3 n y)
  have "((\<lambda>y. 2 * y * chebT (Suc n) y - chebT n y) has_field_derivative
          (2 * chebT (Suc n) y + 2 * y * dchebT (Suc n) y - dchebT n y)) (at y)"
    by (auto intro!: derivative_eq_intros 3 simp: algebra_simps)
  moreover have "2 * chebT (Suc n) y + 2 * y * dchebT (Suc n) y - dchebT n y
                   = dchebT (Suc (Suc n)) y"
  proof (cases n)
    case 0
    then show ?thesis by (simp add: dchebT_def)
  next
    case (Suc m)
    have d0: "dchebT (Suc m) y = (real m + 1) * chebU m y"
      by (simp add: dchebT_def)
    have d1: "dchebT (Suc (Suc m)) y = (real m + 2) * chebU (Suc m) y"
      by (simp add: dchebT_def)
    have d2: "dchebT (Suc (Suc (Suc m))) y
                = (real m + 3) * (2 * y * chebU (Suc m) y - chebU m y)"
      by (simp add: dchebT_def)
    have t: "chebT (Suc (Suc m)) y = y * chebU (Suc m) y - chebU m y"
      by (rule chebT_chebU)
    show ?thesis unfolding Suc d0 d1 d2 t by (simp add: algebra_simps)
  qed
  moreover have "chebT (Suc (Suc n)) = (\<lambda>y. 2 * y * chebT (Suc n) y - chebT n y)"
    by (rule ext) simp
  ultimately show ?case by simp
qed

lemma DERIV_chebval:
  "((\<lambda>y. chebval y c) has_field_derivative
      (\<Sum>k \<leftarrow> [0..<length c]. c ! k * dchebT k y)) (at y)"
  unfolding chebval_def
  by (simp only: interv_sum_list_conv_sum_set_nat)
     (auto intro!: derivative_eq_intros DERIV_chebT simp: mult.commute)

section \<open>The example parameterization\<close>

lemma upto_1_10: "[1..10::int] = [1, 2, 3, 4, 5, 6, 7, 8, 9, 10]"
  by (simp add: upto.simps)

lemma set_1_9: "{1..9::nat} = {1, 2, 3, 4, 5, 6, 7, 8, 9}"
  by auto

lemma upt_0_10: "[0..<10::nat] = [0, 1, 2, 3, 4, 5, 6, 7, 8, 9]"
  by (simp add: upt_rec)

lemma length_VC_rep: "length VC_rep = 10"
  by (simp add: VC_rep_def)

text \<open>The force loop of \<^verbatim>\<open>PorezagPair\<close>, summed up: the term for \<open>m = 1\<close> vanishes.\<close>

lemma force_loop:
  "foldl (\<lambda>force m. force + - (c ! nat (m - 1)) * of_int (m - 1)
                              * eval_chebyu (m - 2) y * d) 0 [1..10]
     = - (\<Sum>k = 1..9. c ! k * real k * chebU (k - 1) y) * (d::real)"
  unfolding upto_1_10 set_1_9
  by (simp add: eval_chebyu_def algebra_simps del: chebU.simps)

lemma VC_rep_derivative_sum:
  "(\<Sum>k \<leftarrow> [0..<length VC_rep]. VC_rep ! k * dchebT k y)
     = (\<Sum>k = 1..9. VC_rep ! k * real k * chebU (k - 1) y)"
  unfolding set_1_9 length_VC_rep upt_0_10
  by (simp add: dchebT_def del: chebU.simps)

text \<open>
  Claim C1. For every distance \<open>r\<close> in the closed interval from 1 to 7, endpoints
  included, each of the eight parameterized quantities of \<^verbatim>\<open>PorezagSKF\<close> is
  \<open>chebval y c - c[0]/2\<close> for its own coefficients \<open>c\<close>, where
  \<open>y = (2r - 7 - 1)/(7 - 1)\<close>; and for every \<open>r\<close> whatsoever the twelve slots that
  involve a d orbital are 0.
\<close>

theorem PorezagSKF_inside_domain:
  "(1 \<le> r \<and> r \<le> 7 \<longrightarrow>
      (let y = (2 * r - 7 - 1) / (7 - 1) in
         Hss0 (PorezagSKF r) = PyFloat (chebval y HC_sssigma - HC_sssigma ! 0 / 2)
       \<and> Hsp0 (PorezagSKF r) = PyFloat (chebval y HC_spsigma - HC_spsigma ! 0 / 2)
       \<and> Hpp0 (PorezagSKF r) = PyFloat (chebval y HC_ppsigma - HC_ppsigma ! 0 / 2)
       \<and> Hpp1 (PorezagSKF r) = PyFloat (chebval y HC_pppi - HC_pppi ! 0 / 2)
       \<and> Sss0 (PorezagSKF r) = PyFloat (chebval y SC_sssigma - SC_sssigma ! 0 / 2)
       \<and> Ssp0 (PorezagSKF r) = PyFloat (chebval y SC_spsigma - SC_spsigma ! 0 / 2)
       \<and> Spp0 (PorezagSKF r) = PyFloat (chebval y SC_ppsigma - SC_ppsigma ! 0 / 2)
       \<and> Spp1 (PorezagSKF r) = PyFloat (chebval y SC_pppi - SC_pppi ! 0 / 2)))
   \<and> Hsd0 (PorezagSKF r) = PyInt 0 \<and> Hpd0 (PorezagSKF r) = PyInt 0
   \<and> Hpd1 (PorezagSKF r) = PyInt 0 \<and> Hdd0 (PorezagSKF r) = PyInt 0
   \<and> Hdd1 (PorezagSKF r) = PyInt 0 \<and> Hdd2 (PorezagSKF r) = PyInt 0
   \<and> Ssd0 (PorezagSKF r) = PyInt 0 \<and> Spd0 (PorezagSKF r) = PyInt 0
   \<and> Spd1 (PorezagSKF r) = PyInt 0 \<and> Sdd0 (PorezagSKF r) = PyInt 0
   \<and> Sdd1 (PorezagSKF r) = PyInt 0 \<and> Sdd2 (PorezagSKF r) = PyInt 0"
  by (simp add: PorezagSKF_def element_def Let_def)

text \<open>
  The two endpoints: at \<open>r = 1\<close> the series is evaluated at \<open>y = -1\<close>, at \<open>r = 7\<close>
  at \<open>y = 1\<close>, and the value is a number, not an error.
\<close>

theorem PorezagSKF_endpoints:
  "Hss0 (PorezagSKF 1) = PyFloat (chebval (- 1) HC_sssigma - HC_sssigma ! 0 / 2)
   \<and> Hss0 (PorezagSKF 7) = PyFloat (chebval 1 HC_sssigma - HC_sssigma ! 0 / 2)
   \<and> Spp1 (PorezagSKF 1) = PyFloat (chebval (- 1) SC_pppi - SC_pppi ! 0 / 2)
   \<and> Hdd2 (PorezagSKF 7) = PyInt 0"
  using PorezagSKF_inside_domain [of 1] PorezagSKF_inside_domain [of 7]
  by (simp add: Let_def)

text \<open>
  Claim C2. For every \<open>r\<close> with \<open>1.0 \<le> r \<le> 4.1\<close> the force that \<^verbatim>\<open>PorezagPair\<close>
  returns is \<open>- (\<Sum>k=1..9. c[k] k U\<^bsub>k-1\<^esub>(y)) (2/(4.1 - 1.0))\<close> with
  \<open>y = (2r - 4.1 - 1.0)/(4.1 - 1.0)\<close>; the energy it returns is
  \<open>chebval y c - c[0]/2\<close>, and the force is the negative of the derivative of that
  energy with respect to \<open>r\<close>.
\<close>

theorem PorezagPair_force:
  assumes "1.0 \<le> r" and "r \<le> 4.1"
  shows "snd (PorezagPair r) =
           - (\<Sum>k = 1..9. VC_rep ! k * real k
                 * chebU (k - 1) ((2 * r - 4.1 - 1.0) / (4.1 - 1.0))) * (2 / (4.1 - 1.0))
       \<and> fst (PorezagPair r) =
           chebval ((2 * r - 4.1 - 1.0) / (4.1 - 1.0)) VC_rep - VC_rep ! 0 / 2
       \<and> ((\<lambda>r. chebval ((2 * r - 4.1 - 1.0) / (4.1 - 1.0)) VC_rep - VC_rep ! 0 / 2)
            has_field_derivative - snd (PorezagPair r)) (at r)"
proof -
  let ?y = "\<lambda>r::real. (2 * r - 4.1 - 1.0) / (4.1 - 1.0)"
  have f: "snd (PorezagPair r) =
           - (\<Sum>k = 1..9. VC_rep ! k * real k * chebU (k - 1) (?y r)) * (2 / (4.1 - 1.0))"
    using assms unfolding PorezagPair_def Let_def by (simp only: force_loop) simp
  have e: "fst (PorezagPair r) = chebval (?y r) VC_rep - VC_rep ! 0 / 2"
    using assms by (simp add: PorezagPair_def Let_def)
  have "((\<lambda>r. chebval (?y r) VC_rep - VC_rep ! 0 / 2) has_field_derivative
           (\<Sum>k \<leftarrow> [0..<length VC_rep]. VC_rep ! k * dchebT k (?y r))
             * (2 / (4.1 - 1.0))) (at r)"
    by (auto intro!: derivative_eq_intros
          DERIV_chain' [where g = "\<lambda>y. chebval y VC_rep"] DERIV_chebval)
  then have d: "((\<lambda>r. chebval (?y r) VC_rep - VC_rep ! 0 / 2)
            has_field_derivative - snd (PorezagPair r)) (at r)"
    unfolding f VC_rep_derivative_sum by simp
  from f e d show ?thesis by blast
qed

text \<open>
  At \<open>r = 1\<close>, where \<open>y = -1\<close> and \<open>U\<^sub>k (-1) = (-1)\<^sup>k (k + 1)\<close>, the force is
  \<open>35589157 / 3875000\<close> Hartree per Bohr radius, about 9.18.
\<close>

theorem PorezagPair_force_at_1:
  "snd (PorezagPair 1) = 35589157 / 3875000
   \<and> ((\<lambda>r. chebval ((2 * r - 4.1 - 1.0) / (4.1 - 1.0)) VC_rep - VC_rep ! 0 / 2)
            has_field_derivative - (35589157 / 3875000)) (at 1)"
proof -
  have v: "snd (PorezagPair 1) = 35589157 / 3875000"
    unfolding PorezagPair_def Let_def upto_1_10
    by (simp add: eval_chebyu_def VC_rep_def eval_nat_numeral)
  from PorezagPair_force [of 1] show ?thesis
    unfolding v by simp
qed

text \<open>
  Claim C3. For every \<open>r\<close> outside the interval from 1 to 7, \<^verbatim>\<open>PorezagSKF\<close> returns
  0 in all eight modelled quantities, so that all twenty slots are 0; for every \<open>r\<close>
  outside the interval from 1.0 to 4.1, \<^verbatim>\<open>PorezagPair\<close> returns energy 0 and
  force 0. Both functions are total: no error is raised.
\<close>

theorem outside_domain_zero:
  "(r < 1 \<or> 7 < r \<longrightarrow>
      PorezagSKF r =
        \<lparr> Hss0 = PyInt 0, Hsp0 = PyInt 0, Hsd0 = PyInt 0, Hpp0 = PyInt 0,
          Hpp1 = PyInt 0, Hpd0 = PyInt 0, Hpd1 = PyInt 0, Hdd0 = PyInt 0,
          Hdd1 = PyInt 0, Hdd2 = PyInt 0,
          Sss0 = PyInt 0, Ssp0 = PyInt 0, Ssd0 = PyInt 0, Spp0 = PyInt 0,
          Spp1 = PyInt 0, Spd0 = PyInt 0, Spd1 = PyInt 0, Sdd0 = PyInt 0,
          Sdd1 = PyInt 0, Sdd2 = PyInt 0 \<rparr>)
   \<and> (r < 1.0 \<or> 4.1 < r \<longrightarrow> PorezagPair r = (0, 0))"
  by (auto simp: PorezagSKF_def element_def PorezagPair_def Let_def)

theorem outside_domain_zero_examples:
  "val (Hss0 (PorezagSKF 0.98)) = 0 \<and> val (Spp1 (PorezagSKF 7.02)) = 0
   \<and> PorezagPair 0.5 = (0, 0) \<and> PorezagPair 4.2 = (0, 0)"
  using outside_domain_zero [of "0.98"] outside_domain_zero [of "7.02"]
    outside_domain_zero [of "0.5"] outside_domain_zero [of "4.2"]
  by simp

section \<open>The table written by makeSKF\<close>
lemma foldl_snoc_map: "foldl (\<lambda>acc x. acc @ [f x]) acc xs = acc @ map f xs"
  by (induction xs arbitrary: acc) simp_all

lemma SKF_lineListList_parts:
  "snd (SKF_lineListList pD) =
     SKF_header pD
     @ map (\<lambda>i. map Num (tempLine pD (val (gridDist pD) * real i))) [0..<nGridPoints pD]
     @ SKF_spline pD"
  by (simp add: SKF_lineListList_def Let_def foldl_snoc_map SKF_header_def SKF_spline_def
        comp_def split: prod.splits)

lemma length_SKF_header:
  "length (SKF_header pD) =
     (if type pD = ''homonuclear'' then 3 else if type pD = ''heteronuclear'' then 2 else 1)"
  by (simp add: SKF_header_def)

lemma length_tempLine: "length (tempLine pD r) = 20"
  by (simp add: tempLine_def Let_def)

text \<open>
  Claim C4. For every parameterization dictionary with a recognized type, the lines
  that \<^verbatim>\<open>makeSKF\<close> writes hold, after the header of \<open>k\<close> lines (3 for
  \<open>homonuclear\<close>, 2 for \<open>heteronuclear\<close>), exactly \<open>nGridPoints\<close> rows, one for each
  grid point \<open>r = gridDist i\<close>, \<open>i = 0, ..., nGridPoints - 1\<close>. Each row has 20 columns
  in the order Hdd0, Hdd1, Hdd2, Hpd0, Hpd1, Hpp0, Hpp1, Hsd0, Hsp0, Hss0, Sdd0, Sdd1,
  Sdd2, Spd0, Spd1, Spp0, Spp1, Ssd0, Ssp0, Sss0; a row with \<open>r\<close> below \<open>domainTB[0]\<close>
  is twenty times 1.0, every other row holds the values of the element function at
  \<open>r\<close>. The line right after the table is the single token \<open>Spline\<close>.
\<close>

theorem makeSKF_integral_table:
  assumes "type pD = ''homonuclear'' \<or> type pD = ''heteronuclear''"
  shows "(let lineListList = snd (SKF_lineListList pD);
              k = (if type pD = ''homonuclear'' then 3 else 2);
              n = nGridPoints pD
          in length lineListList = k + n + 4
           \<and> (\<forall>i<n. let r = val (gridDist pD) * real i; eD = elementFunction pD r
                    in length (lineListList ! (k + i)) = 20
                     \<and> lineListList ! (k + i) =
                         map Num
                           (if r < val (fst (domainTB pD))
                            then replicate 20 (PyFloat 1.0)
                            else [Hdd0 eD, Hdd1 eD, Hdd2 eD, Hpd0 eD, Hpd1 eD,
                                  Hpp0 eD, Hpp1 eD, Hsd0 eD, Hsp0 eD, Hss0 eD,
                                  Sdd0 eD, Sdd1 eD, Sdd2 eD, Spd0 eD, Spd1 eD,
                                  Spp0 eD, Spp1 eD, Ssd0 eD, Ssp0 eD, Sss0 eD]))
           \<and> lineListList ! (k + n) = [Str ''Spline'']
           \<and> snd (makeSKF str pD) =
               map (\<lambda>lineList. join '' '' (map (pystr str) lineList) @ [CHR 0x0A]) lineListList
           \<and> snd (makeSKF str pD) ! (k + n) = ''Spline'' @ [CHR 0x0A])"
proof -
  let ?k = "if type pD = ''homonuclear'' then 3 else 2 :: nat"
  let ?n = "nGridPoints pD"
  let ?lll = "snd (SKF_lineListList pD)"
  have k: "length (SKF_header pD) = ?k"
    using assms by (auto simp: length_SKF_header)
  have len: "length ?lll = ?k + ?n + 4"
    unfolding SKF_lineListList_parts using k by (simp add: SKF_spline_def)
  have row: "?lll ! (?k + i) = map Num (tempLine pD (val (gridDist pD) * real i))"
    if "i < ?n" for i
    unfolding SKF_lineListList_parts k [symmetric] using that
    by (simp add: nth_append)
  have spl: "?lll ! (?k + ?n) = [Str ''Spline'']"
    unfolding SKF_lineListList_parts k [symmetric]
    by (simp add: nth_append SKF_spline_def)
  have wr: "snd (makeSKF str pD) =
               map (\<lambda>lineList. join '' '' (map (pystr str) lineList) @ [CHR 0x0A]) ?lll"
    by (simp add: makeSKF_def split: prod.splits)
  have fspl: "snd (makeSKF str pD) ! (?k + ?n) = ''Spline'' @ [CHR 0x0A]"
    unfolding wr using len spl by (simp del: One_nat_def)
  have rows: "\<forall>i<?n. let r = val (gridDist pD) * real i; eD = elementFunction pD r
                    in length (?lll ! (?k + i)) = 20
                     \<and> ?lll ! (?k + i) =
                         map Num
                           (if r < val (fst (domainTB pD))
                            then replicate 20 (PyFloat 1.0)
                            else [Hdd0 eD, Hdd1 eD, Hdd2 eD, Hpd0 eD, Hpd1 eD,
                                  Hpp0 eD, Hpp1 eD, Hsd0 eD, Hsp0 eD, Hss0 eD,
                                  Sdd0 eD, Sdd1 eD, Sdd2 eD, Spd0 eD, Spd1 eD,
                                  Spp0 eD, Spp1 eD, Ssd0 eD, Ssp0 eD, Sss0 eD])"
    using row by (simp add: Let_def length_tempLine) (simp add: tempLine_def Let_def)
  show ?thesis
    unfolding Let_def using len rows spl wr fspl unfolding Let_def by blast
qed


text \<open>
  The dictionary of example.py: 507 lines; the row of \<open>r = 0.98\<close> is all 1.0, the
  row of \<open>r = 1.0\<close> holds the boundary values of \<^verbatim>\<open>PorezagSKF\<close>, and the line 503
  is \<open>Spline\<close>.
\<close>

theorem makeSKF_example_table:
  "length (snd (SKF_lineListList PorezagDictionary)) = 507
   \<and> snd (SKF_lineListList PorezagDictionary) ! 52 = replicate 20 (Num (PyFloat 1.0))
   \<and> snd (SKF_lineListList PorezagDictionary) ! 53 =
       map Num [PyInt 0, PyInt 0, PyInt 0, PyInt 0, PyInt 0,
                Hpp0 (PorezagSKF 1), Hpp1 (PorezagSKF 1), PyInt 0,
                Hsp0 (PorezagSKF 1), Hss0 (PorezagSKF 1),
                PyInt 0, PyInt 0, PyInt 0, PyInt 0, PyInt 0,
                Spp0 (PorezagSKF 1), Spp1 (PorezagSKF 1), PyInt 0,
                Ssp0 (PorezagSKF 1), Sss0 (PorezagSKF 1)]
   \<and> snd (SKF_lineListList PorezagDictionary) ! 503 = [Str ''Spline'']
   \<and> (\<forall>str. snd (makeSKF str PorezagDictionary) ! 503 = ''Spline'' @ [CHR 0x0A])"
proof -
  let ?lll = "snd (SKF_lineListList PorezagDictionary)"
  have t: "type PorezagDictionary = ''homonuclear'' \<or> type PorezagDictionary = ''heteronuclear''"
    by (simp add: PorezagDictionary_def)
  have h: "type PorezagDictionary = ''homonuclear''" "nGridPoints PorezagDictionary = 500"
    "val (gridDist PorezagDictionary) = 0.02" "val (fst (domainTB PorezagDictionary)) = 1"
    "elementFunction PorezagDictionary = PorezagSKF"
    by (simp_all add: PorezagDictionary_def)
  note T = makeSKF_integral_table [OF t, unfolded Let_def h if_True]
  have len: "length ?lll = 507"
    using T [of "\<lambda>_. []"] by simp
  note R = T [of "\<lambda>_. []", THEN conjunct2, THEN conjunct1, rule_format]
  have r49: "?lll ! 52 = replicate 20 (Num (PyFloat 1.0))"
    using R [of 49] by simp
  have r50: "?lll ! 53 =
       map Num [PyInt 0, PyInt 0, PyInt 0, PyInt 0, PyInt 0,
                Hpp0 (PorezagSKF 1), Hpp1 (PorezagSKF 1), PyInt 0,
                Hsp0 (PorezagSKF 1), Hss0 (PorezagSKF 1),
                PyInt 0, PyInt 0, PyInt 0, PyInt 0, PyInt 0,
                Spp0 (PorezagSKF 1), Spp1 (PorezagSKF 1), PyInt 0,
                Ssp0 (PorezagSKF 1), Sss0 (PorezagSKF 1)]"
    using R [of 50] by (simp add: PorezagSKF_def)
  have spl: "?lll ! 503 = [Str ''Spline'']"
    using T [of "\<lambda>_. []"] by simp
  have fspl: "snd (makeSKF str PorezagDictionary) ! 503 = ''Spline'' @ [CHR 0x0A]" for str
    using T [of str] by simp
  from len r49 r50 spl fspl show ?thesis by blast
qed

text \<open>
  Claim C6 asks that an unrecognized type aborts the generation. \<^verbatim>\<open>makeSKF\<close>
  prints its diagnostic and goes on: for the type \<open>diatomic\<close> and two grid points the
  file is written with the first header line, the two rows of the integral table and
  the spline section, and without the header lines 2 and 3.
\<close>

theorem makeSKF_unknown_type:
  "\<forall>str. makeSKF str (PorezagDictionary\<lparr>type := ''diatomic'', nGridPoints := 2\<rparr>) =
     ([''ERROR: parameterization type must be '' @ [CHR 0x22] @ ''heteronuclear'' @ [CHR 0x22],
       ''       or '' @ [CHR 0x22] @ ''homonuclear'' @ [CHR 0x22]],
      [join '' '' [str (PyFloat 0.02), str (PyInt 2)] @ [CHR 0x0A],
       join '' '' (replicate 20 (str (PyFloat 1.0))) @ [CHR 0x0A],
       join '' '' (replicate 20 (str (PyFloat 1.0))) @ [CHR 0x0A],
       ''Spline'' @ [CHR 0x0A],
       join '' '' [str (PyInt 1), str (PyInt 7)] @ [CHR 0x0A],
       join '' '' [str (PyInt 0), str (PyInt 0), str (PyInt (- 1))] @ [CHR 0x0A],
       join '' '' [str (PyInt 1), str (PyInt 7), str (PyInt 0), str (PyInt 0), str (PyInt 0),
                   str (PyInt 0), str (PyInt 0), str (PyInt 0)] @ [CHR 0x0A]])"
  by (simp add: makeSKF_def SKF_lineListList_def PorezagDictionary_def Let_def tempLine_def
        upt_rec)

section \<open>The pairwise table\<close>

lemma foldl_enumerate_snoc:
  assumes "\<And>acc i x. F acc (i, x) = acc @ [f i x]"
  shows "foldl F acc (zip [m..<m + length xs] xs)
           = acc @ map (\<lambda>i. f (m + i) (xs ! i)) [0..<length xs]"
proof (induction xs arbitrary: acc m)
  case Nil
  then show ?case by simp
next
  case (Cons x xs)
  have "zip [m..<m + length (x # xs)] (x # xs) = (m, x) # zip [Suc m..<Suc m + length xs] xs"
    by (simp add: upt_rec)
  moreover have "map (\<lambda>i. f (m + i) ((x # xs) ! i)) [0..<length (x # xs)]
      = f m x # map (\<lambda>i. f (Suc m + i) (xs ! i)) [0..<length xs]"
    by (simp add: map_upt_Suc del: upt_Suc)
  ultimately show ?case using Cons.IH [of "acc @ [f m x]" "Suc m"] by (simp add: assms)
qed

lemma foldl_enumerate_snoc0:
  assumes "\<And>acc i x. F acc (i, x) = acc @ [f i x]"
  shows "foldl F acc (zip [0..<length xs] xs) = acc @ map (\<lambda>i. f i (xs ! i)) [0..<length xs]"
  using foldl_enumerate_snoc [of F f acc 0 xs] assms by simp

lemma length_linspace: "length (linspace a b n) = n"
  by (simp add: linspace_def)

lemma nth_linspace:
  "i < n \<Longrightarrow> linspace a b n ! i = a + real i * ((b - a) / real (n - 1))"
  by (auto simp: linspace_def)

lemma linspace_last: "2 \<le> n \<Longrightarrow> a + real (n - 1) * ((b - a) / real (n - 1)) = b"
  by simp

lemma makeLAMMPSPairwiseTable_parts:
  "makeLAMMPSPairwiseTable str today pD =
     [''# DATE: '' @ today @ '' UNITS: metal CONTRIBUTOR: '' @ contributor pD @ [CHR 0x0A],
      ''# '' @ pairDescription pD @ [CHR 0x0A],
      [CHR 0x0A],
      pairKeyword pD @ [CHR 0x0A],
      ''N '' @ str (PyInt (int (nGridPoints pD))) @ [CHR 0x0A],
      [CHR 0x0A]]
     @ map (\<lambda>i. pairRow str pD i (linspace (fst (domainPair pD)) (snd (domainPair pD)) (nGridPoints pD) ! i))
         [0..<nGridPoints pD]"
  unfolding makeLAMMPSPairwiseTable_def Let_def
  apply (subst foldl_enumerate_snoc0 [where f = "pairRow str pD"])
   apply (simp add: pairRow_def split: prod.splits)
  apply (simp add: length_linspace)
  done


text \<open>
  Claim C7. \<^verbatim>\<open>makeLAMMPSPairwiseTable\<close> writes the provenance comment line, the
  description comment line, an empty line, the keyword line, the line \<open>N count\<close> with
  \<open>count = nGridPoints\<close>, an empty line, and then exactly \<open>nGridPoints\<close> rows. The
  distances are evenly spaced from \<open>domainPair[0]\<close> to \<open>domainPair[1]\<close>, both
  included, and the row of the \<open>i\<close>-th distance \<open>r\<close> (counted from 1) holds \<open>i\<close>,
  \<open>r 0.529177\<close>, \<open>energy 27.2114\<close> and \<open>force (27.2114 / 0.529177)\<close>, where
  (energy, force) is the value of the pair function at \<open>r\<close>.
\<close>

theorem makeLAMMPSPairwiseTable_layout:
  "(let lineList = makeLAMMPSPairwiseTable str today pD;
        n = nGridPoints pD;
        r_min = fst (domainPair pD);
        r_max = snd (domainPair pD)
    in length lineList = 6 + n
     \<and> take 6 lineList =
         [''# DATE: '' @ today @ '' UNITS: metal CONTRIBUTOR: '' @ contributor pD @ [CHR 0x0A],
          ''# '' @ pairDescription pD @ [CHR 0x0A],
          [CHR 0x0A],
          pairKeyword pD @ [CHR 0x0A],
          ''N '' @ str (PyInt (int n)) @ [CHR 0x0A],
          [CHR 0x0A]]
     \<and> (\<forall>i<n. let r = r_min + real i * ((r_max - r_min) / real (n - 1));
                   (energy, force) = pairFunction pD r
               in lineList ! (6 + i) =
                    join '' '' [str (PyInt (int i + 1)),
                                str (PyFloat (r * 0.529177)),
                                str (PyFloat (energy * 27.2114)),
                                str (PyFloat (force * (27.2114 / 0.529177)))] @ [CHR 0x0A])
     \<and> (2 \<le> n \<longrightarrow> r_min + real (n - 1) * ((r_max - r_min) / real (n - 1)) = r_max))"
proof -
  let ?L = "makeLAMMPSPairwiseTable str today pD"
  let ?n = "nGridPoints pD"
  let ?a = "fst (domainPair pD)"
  let ?b = "snd (domainPair pD)"
  have len: "length ?L = 6 + ?n"
    by (simp add: makeLAMMPSPairwiseTable_parts)
  have hd: "take 6 ?L =
         [''# DATE: '' @ today @ '' UNITS: metal CONTRIBUTOR: '' @ contributor pD @ [CHR 0x0A],
          ''# '' @ pairDescription pD @ [CHR 0x0A],
          [CHR 0x0A],
          pairKeyword pD @ [CHR 0x0A],
          ''N '' @ str (PyInt (int ?n)) @ [CHR 0x0A],
          [CHR 0x0A]]"
    by (simp add: makeLAMMPSPairwiseTable_parts)
  have row: "?L ! (6 + i) = pairRow str pD i (?a + real i * ((?b - ?a) / real (?n - 1)))"
    if "i < ?n" for i
    using that by (simp add: makeLAMMPSPairwiseTable_parts nth_append nth_linspace)
  have rows: "\<forall>i<?n. let r = ?a + real i * ((?b - ?a) / real (?n - 1));
                   (energy, force) = pairFunction pD r
               in ?L ! (6 + i) =
                    join '' '' [str (PyInt (int i + 1)),
                                str (PyFloat (r * 0.529177)),
                                str (PyFloat (energy * 27.2114)),
                                str (PyFloat (force * (27.2114 / 0.529177)))] @ [CHR 0x0A]"
    using row by (simp add: Let_def pairRow_def split: prod.splits)
  have last: "2 \<le> ?n \<longrightarrow> ?a + real (?n - 1) * ((?b - ?a) / real (?n - 1)) = ?b"
    by simp
  show ?thesis
    unfolding Let_def using len hd rows last unfolding Let_def by blast
qed

text \<open>
  A pair function that is 1 Hartree and 1 Hartree per Bohr radius everywhere, on three
  points: the rows report 27.2114 eV and 27.2114 / 0.529177 eV per Angstrom at
  the distances 1.0, 2.55 and 4.1 Bohr radii.
\<close>

theorem makeLAMMPSPairwiseTable_unit_energy:
  "\<forall>str today.
     (let lineList = makeLAMMPSPairwiseTable str today
                       (PorezagDictionary\<lparr>pairFunction := \<lambda>r. (1, 1), nGridPoints := 3\<rparr>)
      in length lineList = 9
       \<and> lineList ! 4 = ''N '' @ str (PyInt 3) @ [CHR 0x0A]
       \<and> lineList ! 6 = join '' '' [str (PyInt 1), str (PyFloat 0.529177),
                                    str (PyFloat 27.2114),
                                    str (PyFloat (27.2114 / 0.529177))] @ [CHR 0x0A]
       \<and> lineList ! 7 = join '' '' [str (PyInt 2), str (PyFloat (2.55 * 0.529177)),
                                    str (PyFloat 27.2114),
                                    str (PyFloat (27.2114 / 0.529177))] @ [CHR 0x0A]
       \<and> lineList ! 8 = join '' '' [str (PyInt 3), str (PyFloat (4.1 * 0.529177)),
                                    str (PyFloat 27.2114),
                                    str (PyFloat (27.2114 / 0.529177))] @ [CHR 0x0A])"
proof (intro allI)
  fix str today
  let ?pD = "PorezagDictionary\<lparr>pairFunction := \<lambda>r. (1, 1), nGridPoints := 3\<rparr>"
  have h: "nGridPoints ?pD = 3" "domainPair ?pD = (1.0, 4.1)" "pairFunction ?pD = (\<lambda>r. (1, 1))"
    by (simp_all add: PorezagDictionary_def)
  note T = makeLAMMPSPairwiseTable_layout [of str today ?pD, unfolded Let_def h fst_conv snd_conv]
  note R = T [THEN conjunct2, THEN conjunct2, THEN conjunct1, rule_format]
  have len: "length (makeLAMMPSPairwiseTable str today ?pD) = 9"
    using T by simp
  have "take 6 (makeLAMMPSPairwiseTable str today ?pD) ! 4 = ''N '' @ str (PyInt 3) @ [CHR 0x0A]"
    unfolding T [THEN conjunct2, THEN conjunct1] by simp
  then have n: "makeLAMMPSPairwiseTable str today ?pD ! 4 = ''N '' @ str (PyInt 3) @ [CHR 0x0A]"
    by simp
  from len n
  show "let lineList = makeLAMMPSPairwiseTable str today ?pD in 
       length lineList = 9
       \<and> lineList ! 4 = ''N '' @ str (PyInt 3) @ [CHR 0x0A]
       \<and> lineList ! 6 = join '' '' [str (PyInt 1), str (PyFloat 0.529177),
                                    str (PyFloat 27.2114),
                                    str (PyFloat (27.2114 / 0.529177))] @ [CHR 0x0A]
       \<and> lineList ! 7 = join '' '' [str (PyInt 2), str (PyFloat (2.55 * 0.529177)),
                                    str (PyFloat 27.2114),
                                    str (PyFloat (27.2114 / 0.529177))] @ [CHR 0x0A]
       \<and> lineList ! 8 = join '' '' [str (PyInt 3), str (PyFloat (4.1 * 0.529177)),
                                    str (PyFloat 27.2114),
                                    str (PyFloat (27.2114 / 0.529177))] @ [CHR 0x0A]"
    using R [of 0] R [of 1] R [of 2] by (simp add: Let_def)
qed

section \<open>Splitting lines and expanding repeat counts\<close>

lemma split_from_token:
  "list_all (\<lambda>c. \<not> isspace c) t \<Longrightarrow> split_from cur (t @ rest) = split_from (cur @ t) rest"
  by (induction t arbitrary: cur) simp_all

lemma split_from_sep:
  "isspace c \<Longrightarrow> split_from cur (x @ c # y) = split_from cur x @ split_from [] y"
  by (induction x arbitrary: cur) simp_all

lemma split_from_end:
  "isspace c \<Longrightarrow> split_from cur (x @ [c]) = split_from cur x"
  using split_from_sep [of c cur x "[]"] by simp

lemma isspace_space: "isspace (CHR '' '')" and isspace_LF: "isspace (CHR 0x0A)"
  by (simp_all add: isspace_def)

lemma split_join: "split_ws (join '' '' xs) = concat (map split_ws xs)"
proof (induction "'' ''" xs rule: join.induct)
  case 1
  show ?case by (simp add: split_ws_def)
next
  case (2 x)
  show ?case by simp
next
  case (3 x y ys)
  have "split_ws (join '' '' (x # y # ys)) = split_from [] (x @ CHR '' '' # join '' '' (y # ys))"
    by (simp add: split_ws_def)
  also have "\<dots> = split_ws x @ split_ws (join '' '' (y # ys))"
    by (simp only: split_from_sep [OF isspace_space] split_ws_def)
  finally show ?case using 3 by simp
qed

lemma split_plain_token: "plain_token t \<Longrightarrow> split_ws t = [t]"
  using split_from_token [of t "[]" "[]"] by (auto simp: plain_token_def split_ws_def)

lemma split_join_tokens:
  "list_all plain_token ts \<Longrightarrow> split_ws (join '' '' ts) = ts"
  by (induction ts) (simp_all add: split_join split_plain_token, simp add: split_ws_def)

lemma split_from_tokens:
  "list_all (\<lambda>c. \<not> isspace c) cur \<Longrightarrow> list_all plain_token (split_from cur s)"
  by (induction s arbitrary: cur) (auto simp: plain_token_def)

lemma split_tokens: "list_all plain_token (split_ws s)"
  by (simp add: split_ws_def split_from_tokens)

lemma split_from_subset:
  "entry \<in> set (split_from cur s) \<Longrightarrow> set entry \<subseteq> set cur \<union> set s"
proof (induction s arbitrary: cur)
  case Nil
  then show ?case by (simp split: if_splits)
next
  case (Cons c s)
  show ?case
  proof (cases "isspace c")
    case True
    with Cons.prems have "entry = cur \<or> entry \<in> set (split_from [] s)"
      by (simp split: if_splits)
    with Cons.IH [of "[]"] show ?thesis by auto
  next
    case False
    with Cons.prems have "entry \<in> set (split_from (cur @ [c]) s)" by simp
    with Cons.IH [of "cur @ [c]"] show ?thesis by auto
  qed
qed

lemma split_subset: "entry \<in> set (split_ws s) \<Longrightarrow> set entry \<subseteq> set s"
  using split_from_subset [of entry "[]" s] by (simp add: split_ws_def)

lemma mapM_all:
  "(\<And>x. x \<in> set xs \<Longrightarrow> f x = Inr (g x)) \<Longrightarrow> mapM f xs = Inr (map g xs)"
  by (induction xs) simp_all


lemma split_ws_Nil [simp]: "split_ws [] = []"
  by (simp add: split_ws_def)

lemma split_at_from_star:
  "CHR ''*'' \<notin> set a \<Longrightarrow> CHR ''*'' \<notin> set b \<Longrightarrow>
   split_at_from (CHR ''*'') cur (a @ CHR ''*'' # b) = [cur @ a, b]"
proof (induction a arbitrary: cur)
  case Nil
  have "split_at_from (CHR ''*'') cur' b = [cur' @ b]" if "CHR ''*'' \<notin> set b" for cur' b
    using that by (induction b arbitrary: cur') auto
  with Nil show ?case by simp
next
  case (Cons c a)
  then show ?case by auto
qed

lemma expandEntry_plain:
  "CHR ''*'' \<notin> set entry \<Longrightarrow> expandEntry str float entry = Inr entry"
  by (simp add: expandEntry_def)

lemma expandEntry_repeat:
  assumes "CHR ''*'' \<in> set entry" and "repeat_cell str float entry"
  shows "expandEntry str float entry = Inr (join '' '' (explicit_entries str float entry))"
  using assms
  by (auto simp: expandEntry_def repeat_cell_def explicit_entries_def to_float_def Let_def
           split: list.splits option.splits)

text \<open>
  The expansion of a line that has no comma left. When every entry with an asterisk
  is a cell of the form \<open>count*value\<close>, the expansion succeeds and the tokens of the
  expanded line are those of the explicitly written line; a line without an asterisk
  is returned as it is.
\<close>

lemma expandLine_cells:
  assumes "\<forall>entry \<in> set (split_ws line). CHR ''*'' \<in> set entry \<longrightarrow> repeat_cell str float entry"
  shows "\<exists>line'. expandLine str float line = Inr line'
           \<and> (CHR ''*'' \<notin> set line \<longrightarrow> line' = line)
           \<and> split_ws line' = concat (map (explicit_entries str float) (split_ws line))
           \<and> map float (split_ws line') = concat (map (cell_values float) (split_ws line))"
proof -
  let ?es = "map (\<lambda>entry. join '' '' (explicit_entries str float entry)) (split_ws line)"
  have tok: "plain_token entry" if "entry \<in> set (split_ws line)" for entry
    using split_tokens [of line] that by (simp add: list_all_iff)
  have ex_tok: "list_all plain_token (explicit_entries str float entry)"
    if "entry \<in> set (split_ws line)" for entry
  proof (cases "CHR ''*'' \<in> set entry")
    case True
    with assms that have "repeat_cell str float entry" by blast
    with True show ?thesis
      by (auto simp: explicit_entries_def repeat_cell_def Let_def list_all_iff
               split: list.splits option.splits)
  next
    case False
    with tok [OF that] show ?thesis by (simp add: explicit_entries_def)
  qed
  have vals: "map float (explicit_entries str float entry) = cell_values float entry"
    if "entry \<in> set (split_ws line)" for entry
  proof (cases "CHR ''*'' \<in> set entry")
    case True
    with assms that have "repeat_cell str float entry" by blast
    with True show ?thesis
      by (auto simp: explicit_entries_def cell_values_def repeat_cell_def Let_def
               split: list.splits option.splits)
  next
    case False
    then show ?thesis by (simp add: explicit_entries_def cell_values_def)
  qed
  have entry: "expandEntry str float entry = Inr (join '' '' (explicit_entries str float entry))"
    if "entry \<in> set (split_ws line)" for entry
  proof (cases "CHR ''*'' \<in> set entry")
    case True
    with assms that show ?thesis by (simp add: expandEntry_repeat)
  next
    case False
    then show ?thesis by (simp add: expandEntry_plain explicit_entries_def)
  qed
  have mapM: "mapM (expandEntry str float) (split_ws line) = Inr ?es"
    by (rule mapM_all) (rule entry)
  have split_es: "concat (map split_ws ?es) = concat (map (explicit_entries str float) (split_ws line))"
    using ex_tok by (simp add: comp_def split_join_tokens cong: map_cong)
  show ?thesis
  proof (cases "CHR ''*'' \<in> set line")
    case True
    then have e: "expandLine str float line = Inr (join '' '' ?es)"
      by (simp add: expandLine_def mapM)
    have s: "split_ws (join '' '' ?es) = concat (map (explicit_entries str float) (split_ws line))"
      by (simp only: split_join split_es)
    have "map float (split_ws (join '' '' ?es)) = concat (map (cell_values float) (split_ws line))"
      unfolding s using vals by (simp add: map_concat comp_def cong: map_cong)
    with e s True show ?thesis by simp
  next
    case False
    then have e: "expandLine str float line = Inr line"
      by (simp add: expandLine_def)
    have no: "CHR ''*'' \<notin> set entry" if "entry \<in> set (split_ws line)" for entry
      using split_subset [OF that] False by blast
    have "concat (map (explicit_entries str float) xs) = xs
            \<and> concat (map (cell_values float) xs) = map float xs"
      if "\<And>entry. entry \<in> set xs \<Longrightarrow> CHR ''*'' \<notin> set entry" for xs
      using that by (induction xs) (simp_all add: explicit_entries_def cell_values_def)
    from this [of "split_ws line"] no
    have s: "concat (map (explicit_entries str float) (split_ws line)) = split_ws line"
      and v: "concat (map (cell_values float) (split_ws line)) = map float (split_ws line)"
      by blast+
    from e s v show ?thesis by simp
  qed
qed


lemma mapM_map: "mapM f (map g xs) = mapM (\<lambda>x. f (g x)) xs"
  by (induction xs) (simp_all split: sum.splits)

lemma expandedLines_readerLine:
  "expandedLines str float content = mapM (readerLine str float) (readlines content)"
proof -
  have "readerLine str float = (\<lambda>line. expandLine str float (filter (\<lambda>c. c \<noteq> CHR '','') line))"
    by (rule ext) (simp add: readerLine_def)
  then show ?thesis
    by (simp add: expandedLines_def Let_def mapM_map)
qed

text \<open>
  Claim C9 says of every input line that cells \<open>count*value\<close> are expanded and that
  a line without an asterisk is passed through unchanged. The reader deletes the
  commas of every line first: the line \<open>1,0 2.0, 7\<close> has no asterisk, and it is
  passed on as \<open>10 2.0 7\<close>.
\<close>

theorem comma_line_counterexample:
  "CHR ''*'' \<notin> set (''1,0 2.0, 7'' @ [CHR 0x0A])
   \<and> readlines (''1,0 2.0, 7'' @ [CHR 0x0A]) = [''1,0 2.0, 7'' @ [CHR 0x0A]]
   \<and> expandedLines str_sample float_sample (''1,0 2.0, 7'' @ [CHR 0x0A])
       = Inr [''10 2.0 7'' @ [CHR 0x0A]]"
  by (simp add: expandedLines_def readlines_def expandLine_def)

text \<open>
  Claim C9 as the code has it. The reader works line by line, before it splits the
  lines into columns: it deletes the commas of the line and then expands the line so
  cleaned. When every entry of the cleaned line with an asterisk is a cell of the form
  \<open>count*value\<close>, this succeeds, and the tokens of the result are those of the
  explicitly written line: the cell has become \<open>count\<close> columns that each hold the
  text of the value, every other entry is as it was, and \<^verbatim>\<open>float\<close> reads the same
  numbers from both. A line without an asterisk is passed on with its commas deleted,
  and unchanged when it has no comma either.
\<close>

theorem readerLine_repeat_cells:
  assumes "\<forall>entry \<in> set (split_ws (filter (\<lambda>c. c \<noteq> CHR '','') line)).
             CHR ''*'' \<in> set entry \<longrightarrow> repeat_cell str float entry"
  shows "expandedLines str float content = mapM (readerLine str float) (readlines content)
       \<and> (\<exists>line'. readerLine str float line = Inr line'
             \<and> (CHR ''*'' \<notin> set line \<longrightarrow> line' = filter (\<lambda>c. c \<noteq> CHR '','') line)
             \<and> (CHR ''*'' \<notin> set line \<and> CHR '','' \<notin> set line \<longrightarrow> line' = line)
             \<and> split_ws line'
                 = concat (map (explicit_entries str float)
                             (split_ws (filter (\<lambda>c. c \<noteq> CHR '','') line)))
             \<and> map float (split_ws line')
                 = concat (map (cell_values float)
                             (split_ws (filter (\<lambda>c. c \<noteq> CHR '','') line))))"
proof -
  let ?cleaned = "filter (\<lambda>c. c \<noteq> CHR '','') line"
  from expandLine_cells [OF assms] obtain line' where
    e: "expandLine str float ?cleaned = Inr line'"
    and u: "CHR ''*'' \<notin> set ?cleaned \<longrightarrow> line' = ?cleaned"
    and t: "split_ws line' = concat (map (explicit_entries str float) (split_ws ?cleaned))"
    and v: "map float (split_ws line') = concat (map (cell_values float) (split_ws ?cleaned))"
    by blast
  have star: "CHR ''*'' \<in> set ?cleaned \<longleftrightarrow> CHR ''*'' \<in> set line" by simp
  have same: "?cleaned = line" if "CHR '','' \<notin> set line"
    using that by (intro filter_True) auto
  have "readerLine str float line = Inr line'"
    by (simp add: readerLine_def e)
  moreover have "CHR ''*'' \<notin> set line \<longrightarrow> line' = ?cleaned"
    using u star by blast
  moreover have "CHR ''*'' \<notin> set line \<and> CHR '','' \<notin> set line \<longrightarrow> line' = line"
    using u star same by auto
  ultimately show ?thesis
    using t v expandedLines_readerLine [of str float content] by blast
qed

text \<open>
  The line \<open>3*1.0, 2.0\<close> becomes the four columns 1.0, 1.0, 1.0 and 2.0; the line
  \<open>1.0 2.0\<close> stays as it is.
\<close>

theorem readerLine_example:
  "(\<exists>line'. readerLine str_sample float_sample (''3*1.0, 2.0'' @ [CHR 0x0A]) = Inr line'
       \<and> split_ws line' = [''1.0'', ''1.0'', ''1.0'', ''2.0'']
       \<and> map float_sample (split_ws line') = [Some 1, Some 1, Some 1, Some 2])
   \<and> readerLine str_sample float_sample (''1.0 2.0'' @ [CHR 0x0A])
       = Inr (''1.0 2.0'' @ [CHR 0x0A])"
proof -
  have f: "filter (\<lambda>c. c \<noteq> CHR '','') (''3*1.0, 2.0'' @ [CHR 0x0A]) = ''3*1.0 2.0'' @ [CHR 0x0A]"
    by simp
  have s: "split_ws (''3*1.0 2.0'' @ [CHR 0x0A]) = [''3*1.0'', ''2.0'']"
    by (simp add: split_ws_def isspace_def)
  have c: "repeat_cell str_sample float_sample ''3*1.0''"
    by (simp add: repeat_cell_def split_at_def str_sample_def float_sample_def plain_token_def
          isspace_def)
  have "\<forall>entry \<in> set (split_ws (filter (\<lambda>c. c \<noteq> CHR '','') (''3*1.0, 2.0'' @ [CHR 0x0A]))).
          CHR ''*'' \<in> set entry \<longrightarrow> repeat_cell str_sample float_sample entry"
    unfolding f s using c by simp
  from readerLine_repeat_cells [OF this]
  have 1: "\<exists>line'. readerLine str_sample float_sample (''3*1.0, 2.0'' @ [CHR 0x0A]) = Inr line'
       \<and> split_ws line' = [''1.0'', ''1.0'', ''1.0'', ''2.0'']
       \<and> map float_sample (split_ws line') = [Some 1, Some 1, Some 1, Some 2]"
    unfolding f s
    by (simp add: explicit_entries_def cell_values_def split_at_def str_sample_def
          float_sample_def int_of_float_def eval_nat_numeral)
  have "\<forall>entry \<in> set (split_ws (filter (\<lambda>c. c \<noteq> CHR '','') (''1.0 2.0'' @ [CHR 0x0A]))).
          CHR ''*'' \<in> set entry \<longrightarrow> repeat_cell str_sample float_sample entry"
    by (simp add: split_ws_def isspace_def)
  from readerLine_repeat_cells [OF this]
  have 2: "readerLine str_sample float_sample (''1.0 2.0'' @ [CHR 0x0A])
             = Inr (''1.0 2.0'' @ [CHR 0x0A])"
    by auto
  from 1 2 show ?thesis by blast
qed

section \<open>Where the reader finds the integral table\<close>

lemma firstLineIndex_found:
  "firstLineIndex k ls i0 = Inr first \<Longrightarrow>
     \<exists>i. i0 \<le> i \<and> i < length ls \<and> length (ls ! i) = k
       \<and> (\<forall>j. i0 \<le> j \<and> j < i \<longrightarrow> length (ls ! j) \<noteq> k)
       \<and> first = (if k = 20 then i + 1 else i)"
proof (induction k ls i0 rule: firstLineIndex.induct)
  case (1 k ls i0)
  show ?case
  proof (cases "length ls \<le> i0")
    case True
    with "1.prems" show ?thesis by (simp add: firstLineIndex.simps [of k ls i0])
  next
    case inside: False
    show ?thesis
    proof (cases "length (ls ! i0) = k")
      case True
      with inside "1.prems" have "first = (if k = 20 then i0 + 1 else i0)"
        by (simp add: firstLineIndex.simps [of k ls i0])
      with True inside show ?thesis by (intro exI [of _ i0]) auto
    next
      case False
      with inside "1.prems" have "firstLineIndex k ls (i0 + 1) = Inr first"
        by (simp add: firstLineIndex.simps [of k ls i0])
      from "1.IH" [OF inside False this] obtain i where
        i: "i0 + 1 \<le> i" "i < length ls" "length (ls ! i) = k"
           "\<forall>j. i0 + 1 \<le> j \<and> j < i \<longrightarrow> length (ls ! j) \<noteq> k"
           "first = (if k = 20 then i + 1 else i)"
        by blast
      have "\<forall>j. i0 \<le> j \<and> j < i \<longrightarrow> length (ls ! j) \<noteq> k"
      proof (intro allI impI)
        fix j assume "i0 \<le> j \<and> j < i"
        then show "length (ls ! j) \<noteq> k"
          using False i(4) by (cases "j = i0") auto
      qed
      with i show ?thesis by (intro exI [of _ i]) auto
    qed
  qed
qed

lemma afterLineIndex_snoc:
  "afterLineIndex (ls @ [l]) = (if ''Spline'' \<in> set l then length ls else afterLineIndex ls)"
proof -
  have "zip [0..<length (ls @ [l])] (ls @ [l]) = zip [0..<length ls] ls @ [(length ls, l)]"
    by simp
  then show ?thesis by (simp add: afterLineIndex_def)
qed

lemma afterLineIndex_Nil: "afterLineIndex [] = 0"
  by (simp add: afterLineIndex_def)

lemma afterLineIndex_last:
  "(\<exists>j<length ls. ''Spline'' \<in> set (ls ! j)) \<Longrightarrow>
     afterLineIndex ls < length ls \<and> ''Spline'' \<in> set (ls ! afterLineIndex ls)
     \<and> (\<forall>j<length ls. afterLineIndex ls < j \<longrightarrow> ''Spline'' \<notin> set (ls ! j))"
proof (induction ls rule: rev_induct)
  case Nil
  then show ?case by simp
next
  case (snoc l ls)
  show ?case
  proof (cases "''Spline'' \<in> set l")
    case True
    then show ?thesis by (simp add: afterLineIndex_snoc)
  next
    case False
    with snoc.prems have "\<exists>j<length ls. ''Spline'' \<in> set (ls ! j)"
      by (auto simp: nth_append less_Suc_eq split: if_splits)
    from snoc.IH [OF this] False show ?thesis
      by (auto simp: afterLineIndex_snoc nth_append less_Suc_eq)
  qed
qed

lemma afterLineIndex_none:
  "(\<forall>j<length ls. ''Spline'' \<notin> set (ls ! j)) \<Longrightarrow> afterLineIndex ls = 0"
  by (induction ls rule: rev_induct)
     (auto simp: afterLineIndex_Nil afterLineIndex_snoc nth_append less_Suc_eq split: if_splits)

lemma mapM_to_float:
  "mapM (to_float float) xs = Inr ys \<Longrightarrow> map float xs = map Some ys"
  by (induction xs arbitrary: ys) (auto simp: to_float_def split: option.splits sum.splits)

lemma mapM_mapM_to_float:
  "mapM (mapM (to_float float)) rows = Inr tbl \<Longrightarrow> map (map float) rows = map (map Some) tbl"
  by (induction rows arbitrary: tbl) (auto simp: mapM_to_float split: sum.splits)

lemma mapM_Nil_iff: "mapM f xs = Inr [] \<longleftrightarrow> xs = []"
  by (cases xs) (auto split: sum.splits)

lemma halves_Inr:
  "halves k tbl = Inr (H, S) \<Longrightarrow> tbl \<noteq> [] \<and> H = map (take (k div 2)) tbl \<and> S = map (drop (k div 2)) tbl"
  by (auto simp: halves_def split: list.splits if_splits)


lemma sampleSKF_lines:
  "expandedLines str_sample float_sample sampleSKF = Inr sampleLines"
  by (simp add: expandedLines_def sampleSKF_def sampleLines_def readlines_def expandLine_def
        eval_nat_numeral)

lemma sampleLines_split:
  "map split_ws sampleLines =
     [[''1.0'', ''2''], replicate 20 ''7'', replicate 10 ''1.0'' @ replicate 10 ''0.5'',
      replicate 10 ''2.0'' @ replicate 10 ''0.0'', [''Spline''], [''1'', ''7'']]"
  by (simp add: sampleLines_def split_ws_def isspace_def eval_nat_numeral)

lemma sampleSKF_tables:
  "plotSKF_tables str_sample float_sample sampleSKF =
     Inr (1, [replicate 10 1, replicate 10 2], [replicate 10 0.5, replicate 10 0])"
proof -
  let ?ls = "[[''1.0'', ''2''], replicate 20 ''7'', replicate 10 ''1.0'' @ replicate 10 ''0.5'',
      replicate 10 ''2.0'' @ replicate 10 ''0.0'', [''Spline''], [''1'', ''7'']]"
  have ne: "sampleLines \<noteq> []" and at: "CHR ''@'' \<notin> set (sampleLines ! 0)"
    by (simp_all add: sampleLines_def)
  have fn: "first_number float_sample sampleLines 0 = Inr 1"
    by (simp add: first_number_def sampleLines_def split_ws_def isspace_def to_float_def
          float_sample_def)
  have fl: "firstLineIndex 20 ?ls 0 = Inr 2"
    by (simp add: firstLineIndex.simps)
  have al: "afterLineIndex ?ls = 4"
    by (simp add: afterLineIndex_def upt_rec)
  have tk: "take (4 - 2) (drop 2 ?ls) = [replicate 10 ''1.0'' @ replicate 10 ''0.5'',
      replicate 10 ''2.0'' @ replicate 10 ''0.0'']"
    by simp
  have tb: "mapM (mapM (to_float float_sample)) [replicate 10 ''1.0'' @ replicate 10 ''0.5'',
      replicate 10 ''2.0'' @ replicate 10 ''0.0'']
      = Inr [replicate 10 1 @ replicate 10 0.5, replicate 10 2 @ replicate 10 0]"
    by (simp add: to_float_def float_sample_def eval_nat_numeral)
  have hv: "halves 20 [replicate 10 1 @ replicate 10 0.5, replicate 10 2 @ replicate 10 0]
      = Inr ([replicate 10 1, replicate 10 2], [replicate 10 0.5, replicate 10 0])"
    by (simp add: halves_def)
  show ?thesis
    unfolding plotSKF_tables_def sampleSKF_lines
    by (simp only: sum.case ne at if_False Let_def fn sampleLines_split fl al tk tb hv prod.case)
qed

text \<open>
  Claim C8 says that the table starts at the first line with as many tokens as the
  format has columns. In the simple format the reader starts one line later: in the
  sample file the first line with 20 tokens is line 1, the twenty entries 7, the
  reader takes line 2 as the first line of the table, and the entries 7 are in
  neither table.
\<close>

theorem simple_format_start_counterexample:
  "length (map split_ws sampleLines ! 0) \<noteq> 20
   \<and> length (map split_ws sampleLines ! 1) = 20
   \<and> firstLineIndex 20 (map split_ws sampleLines) 0 = Inr 2
   \<and> expandedLines str_sample float_sample sampleSKF = Inr sampleLines
   \<and> plotSKF_tables str_sample float_sample sampleSKF =
       Inr (1, [replicate 10 1, replicate 10 2], [replicate 10 0.5, replicate 10 0])"
  unfolding sampleLines_split
  by (simp add: firstLineIndex.simps sampleSKF_lines sampleSKF_tables)

text \<open>
  Claim C8 as the code has it. For every file that the reader parses without an
  error, with \<open>k = 40\<close> columns in the extended format (an at sign in the first line)
  and \<open>k = 20\<close> in the simple format: there is a first line \<open>i\<close> with \<open>k\<close> tokens; the
  table starts at the line \<open>i\<close> in the extended format and at the line \<open>i + 1\<close> in the
  simple format, where the line \<open>i\<close> is the header line before the table; it ends
  before the last line that has a token \<open>Spline\<close>; it has at least one row; and
  \<open>HTable\<close> holds the first \<open>k/2\<close> columns of its numbers, \<open>STable\<close> the others.
\<close>

theorem plotSKF_tables_location:
  assumes "expandedLines str float content = Inr lines"
      and "plotSKF_tables str float content = Inr (g, HTable, STable)"
  shows "(let linesSplit = map split_ws lines;
              k = (if CHR ''@'' \<in> set (lines ! 0) then 40 else 20)
          in \<exists>i after tbl.
               i < length linesSplit \<and> length (linesSplit ! i) = k
             \<and> (\<forall>j<i. length (linesSplit ! j) \<noteq> k)
             \<and> after < length linesSplit \<and> ''Spline'' \<in> set (linesSplit ! after)
             \<and> (\<forall>j<length linesSplit. after < j \<longrightarrow> ''Spline'' \<notin> set (linesSplit ! j))
             \<and> (let first = (if k = 20 then i + 1 else i)
                in first < after
                 \<and> map (map float) (take (after - first) (drop first linesSplit))
                     = map (map Some) tbl)
             \<and> HTable = map (take (k div 2)) tbl \<and> STable = map (drop (k div 2)) tbl)"
proof -
  let ?ls = "map split_ws lines"
  let ?k = "if CHR ''@'' \<in> set (lines ! 0) then 40 else 20 :: nat"
  let ?a = "afterLineIndex ?ls"
  from assms obtain first tbl where
    f: "firstLineIndex ?k ?ls 0 = Inr first"
    and t: "mapM (mapM (to_float float)) (take (?a - first) (drop first ?ls)) = Inr tbl"
    and h: "halves ?k tbl = Inr (HTable, STable)"
    by (auto simp: plotSKF_tables_def Let_def split: sum.splits if_splits)
  from firstLineIndex_found [OF f] obtain i where
    i: "i < length ?ls" "length (?ls ! i) = ?k" "\<forall>j<i. length (?ls ! j) \<noteq> ?k"
       "first = (if ?k = 20 then i + 1 else i)"
    by auto
  from halves_Inr [OF h] have tbl: "tbl \<noteq> []"
    and H: "HTable = map (take (?k div 2)) tbl" and S: "STable = map (drop (?k div 2)) tbl"
    by auto
  from t tbl have "take (?a - first) (drop first ?ls) \<noteq> []"
    by (auto simp: mapM_Nil_iff)
  then have lt: "first < ?a" by (cases "first < ?a") auto
  then have "?a \<noteq> 0" by simp
  with afterLineIndex_none [of ?ls] have "\<exists>j<length ?ls. ''Spline'' \<in> set (?ls ! j)"
    by blast
  from afterLineIndex_last [OF this] have
    a: "?a < length ?ls" "''Spline'' \<in> set (?ls ! ?a)"
       "\<forall>j<length ?ls. ?a < j \<longrightarrow> ''Spline'' \<notin> set (?ls ! j)"
    by auto
  have m: "map (map float) (take (?a - first) (drop first ?ls)) = map (map Some) tbl"
    by (rule mapM_mapM_to_float [OF t])
  note lt' = lt [unfolded i(4)] and m' = m [unfolded i(4)]
  show ?thesis
    unfolding Let_def
    by (intro exI [of _ i] exI [of _ ?a] exI [of _ tbl] conjI)
       (fact i(1) i(2) i(3) a lt' m' H S)+
qed


text \<open>The sample file is read without an error, so the statement applies to it.\<close>

theorem plotSKF_tables_location_sample:
  "plotSKF_tables str_sample float_sample sampleSKF =
     Inr (1, [replicate 10 1, replicate 10 2], [replicate 10 0.5, replicate 10 0])
   \<and> (let linesSplit = map split_ws sampleLines;
           k = (if CHR ''@'' \<in> set (sampleLines ! 0) then 40 else 20)
       in \<exists>i after tbl.
            i < length linesSplit \<and> length (linesSplit ! i) = k
          \<and> (\<forall>j<i. length (linesSplit ! j) \<noteq> k)
          \<and> after < length linesSplit \<and> ''Spline'' \<in> set (linesSplit ! after)
          \<and> (\<forall>j<length linesSplit. after < j \<longrightarrow> ''Spline'' \<notin> set (linesSplit ! j))
          \<and> (let first = (if k = 20 then i + 1 else i)
             in first < after
              \<and> map (map float_sample) (take (after - first) (drop first linesSplit))
                  = map (map Some) tbl)
          \<and> [replicate 10 1, replicate 10 2] = map (take (k div 2)) tbl
          \<and> [replicate 10 0.5, replicate 10 0] = map (drop (k div 2)) tbl)"
  using plotSKF_tables_location [OF sampleSKF_lines sampleSKF_tables] sampleSKF_tables
  by (rule conjI [rotated])

section \<open>Writing a table and reading it back\<close>

lemma universal_newlines_id: "CHR 0x0D \<notin> set s \<Longrightarrow> universal_newlines s = s"
  by (induction s rule: universal_newlines.induct) (auto split: list.splits)

lemma lines_from_line:
  "CHR 0x0A \<notin> set b \<Longrightarrow>
   lines_from cur (b @ CHR 0x0A # rest) = (cur @ b @ [CHR 0x0A]) # lines_from [] rest"
  by (induction b arbitrary: cur) auto

lemma lines_from_concat:
  "(\<And>l. l \<in> set ls \<Longrightarrow> \<exists>b. l = b @ [CHR 0x0A] \<and> CHR 0x0A \<notin> set b) \<Longrightarrow>
   lines_from [] (concat ls) = ls"
proof (induction ls)
  case Nil
  show ?case by simp
next
  case (Cons l ls)
  from Cons.prems [of l] obtain b where b: "l = b @ [CHR 0x0A]" "CHR 0x0A \<notin> set b" by auto
  have "lines_from [] (concat (l # ls)) = lines_from [] (b @ CHR 0x0A # concat ls)"
    by (simp add: b)
  also have "\<dots> = l # lines_from [] (concat ls)"
    using lines_from_line [OF b(2), of "[]" "concat ls"] by (simp add: b)
  finally show ?case using Cons by simp
qed

lemma readlines_concat:
  assumes "\<And>l. l \<in> set ls \<Longrightarrow> \<exists>b. l = b @ [CHR 0x0A] \<and> list_all clean b"
  shows "readlines (concat ls) = ls"
proof -
  have "CHR 0x0D \<notin> set (concat ls)"
    using assms by (fastforce simp: list_all_iff clean_def)
  moreover have "\<exists>b. l = b @ [CHR 0x0A] \<and> CHR 0x0A \<notin> set b" if "l \<in> set ls" for l
    using assms [OF that] by (auto simp: list_all_iff clean_def)
  ultimately show ?thesis
    by (simp add: readlines_def universal_newlines_id lines_from_concat)
qed

lemma set_join: "set (join sep xs) \<subseteq> set sep \<union> \<Union> (set ` set xs)"
  by (induction sep xs rule: join.induct) auto

lemma number_text_clean: "number_text t \<Longrightarrow> list_all clean t"
  by (auto simp: number_text_def plain_token_def list_all_iff clean_def isspace_def)


lemma pystr_clean:
  assumes "\<And>v. number_text (str v)" and "c = Str ''Spline'' \<or> (\<exists>v. c = Num v)"
  shows "list_all clean (pystr str c)" and "plain_token (pystr str c)"
  using assms number_text_clean [of "str v" for v]
  by (auto simp: clean_def number_text_def plain_token_def isspace_def)

lemma SKF_cells:
  "l \<in> set (snd (SKF_lineListList pD)) \<Longrightarrow> c \<in> set l \<Longrightarrow> SKF_cell c"
  unfolding SKF_lineListList_parts
  by (auto simp: SKF_header_def SKF_spline_def SKF_cell_def split: if_splits)

lemma render_clean:
  assumes "\<And>v. number_text (str v)" and "\<And>c. c \<in> set l \<Longrightarrow> SKF_cell c"
  shows "list_all clean (join '' '' (map (pystr str) l))"
proof -
  have "list_all clean (pystr str c)" if "c \<in> set l" for c
    using pystr_clean(1) [of str c] assms that by (simp add: SKF_cell_def)
  then have "\<forall>x \<in> \<Union> (set ` set (map (pystr str) l)). clean x"
    by (auto simp: list_all_iff)
  moreover have "clean (CHR '' '')" by (simp add: clean_def)
  ultimately show ?thesis
    using set_join [of "'' ''" "map (pystr str) l"] by (auto simp: list_all_iff)
qed

lemma render_split:
  assumes "\<And>v. number_text (str v)" and "\<And>c. c \<in> set l \<Longrightarrow> SKF_cell c"
  shows "split_ws (render str l) = map (pystr str) l"
proof -
  have "list_all plain_token (map (pystr str) l)"
    using pystr_clean(2) [of str] assms by (auto simp: list_all_iff SKF_cell_def)
  then have "split_ws (join '' '' (map (pystr str) l)) = map (pystr str) l"
    by (rule split_join_tokens)
  then show ?thesis
    using split_from_end [OF isspace_LF, of "[]" "join '' '' (map (pystr str) l)"]
    by (simp add: render_def split_ws_def)
qed

lemma makeSKF_render:
  "snd (makeSKF str pD) = map (render str) (snd (SKF_lineListList pD))"
  by (simp add: makeSKF_def render_def split: prod.splits)

lemma written_expandedLines:
  assumes "\<And>v. number_text (str v)"
  shows "expandedLines str float (concat (snd (makeSKF str pD))) = Inr (snd (makeSKF str pD))"
proof -
  let ?ls = "snd (makeSKF str pD)"
  have body: "\<exists>b. l = b @ [CHR 0x0A] \<and> list_all clean b" if "l \<in> set ?ls" for l
  proof -
    from that obtain cs where cs: "cs \<in> set (snd (SKF_lineListList pD))" "l = render str cs"
      by (auto simp: makeSKF_render)
    have "list_all clean (join '' '' (map (pystr str) cs))"
      using render_clean [of str cs] assms SKF_cells [OF cs(1)] by blast
    with cs(2) show ?thesis by (auto simp: render_def)
  qed
  have rl: "readlines (concat ?ls) = ?ls"
    using body by (rule readlines_concat)
  have cl: "CHR '','' \<notin> set l \<and> CHR ''*'' \<notin> set l" if "l \<in> set ?ls" for l
  proof -
    from body [OF that] obtain b where b: "l = b @ [CHR 0x0A]" "list_all clean b"
      by blast
    from b(2) have "\<forall>c \<in> set b. c \<noteq> CHR '','' \<and> c \<noteq> CHR ''*''"
      by (simp add: list_all_iff clean_def)
    then show ?thesis unfolding b(1) by auto
  qed
  have nc: "filter (\<lambda>c. c \<noteq> CHR '','') l = l" if "l \<in> set ?ls" for l
    using cl [OF that] by (auto intro!: filter_True)
  have ex: "expandLine str float l = Inr l" if "l \<in> set ?ls" for l
    using cl [OF that] by (simp add: expandLine_def)
  have "map (filter (\<lambda>c. c \<noteq> CHR '','')) ?ls = ?ls"
    using nc by (simp add: map_idI)
  moreover have "mapM (expandLine str float) ?ls = Inr (map (\<lambda>l. l) ?ls)"
    using ex by (intro mapM_all) auto
  ultimately show ?thesis
    by (simp add: expandedLines_def rl)
qed

lemma written_split:
  assumes "\<And>v. number_text (str v)"
  shows "map split_ws (snd (makeSKF str pD))
           = map (map (pystr str)) (snd (SKF_lineListList pD))"
  unfolding makeSKF_render map_map
  by (rule map_cong [OF refl]) (simp add: render_split [OF assms] SKF_cells)


lemma firstLineIndex_skip:
  "i < length ls \<Longrightarrow> length (ls ! i) \<noteq> k \<Longrightarrow>
   firstLineIndex k ls i = firstLineIndex k ls (i + 1)"
  by (simp add: firstLineIndex.simps [of k ls i])

lemma firstLineIndex_hit:
  "i < length ls \<Longrightarrow> length (ls ! i) = k \<Longrightarrow>
   firstLineIndex k ls i = Inr (if k = 20 then i + 1 else i)"
  by (simp add: firstLineIndex.simps [of k ls i])

lemma afterLineIndex_marker:
  "''Spline'' \<in> set m \<Longrightarrow> (\<And>l. l \<in> set post \<Longrightarrow> ''Spline'' \<notin> set l) \<Longrightarrow>
   afterLineIndex (pre @ m # post) = length pre"
proof (induction post rule: rev_induct)
  case Nil
  then show ?case using afterLineIndex_snoc [of pre m] by simp
next
  case (snoc l post)
  have "afterLineIndex ((pre @ m # post) @ [l]) = afterLineIndex (pre @ m # post)"
    using snoc.prems(2) [of l] by (simp only: afterLineIndex_snoc) simp
  with snoc show ?case by simp
qed

lemma mapM_row_back:
  "(\<And>v. v \<in> set row \<Longrightarrow> float (str v) = Some (val v)) \<Longrightarrow>
   mapM (to_float float) (map str row) = Inr (map val row)"
  by (induction row) (simp_all add: to_float_def)

lemma mapM_rows_back:
  "(\<And>row v. row \<in> set rows \<Longrightarrow> v \<in> set row \<Longrightarrow> float (str v) = Some (val v)) \<Longrightarrow>
   mapM (mapM (to_float float)) (map (map str) rows) = Inr (map (map val) rows)"
proof (induction rows)
  case Nil
  show ?case by simp
next
  case (Cons row rows)
  have "mapM (to_float float) (map str row) = Inr (map val row)"
    by (rule mapM_row_back) (rule Cons.prems [of row], simp_all)
  moreover have "mapM (mapM (to_float float)) (map (map str) rows) = Inr (map (map val) rows)"
    by (rule Cons.IH) (rule Cons.prems, simp_all)
  ultimately show ?case by simp
qed

lemma halves_rectangular:
  "tbl \<noteq> [] \<Longrightarrow> (\<And>row. row \<in> set tbl \<Longrightarrow> length row = m) \<Longrightarrow>
   halves k tbl = Inr (map (take (k div 2)) tbl, map (drop (k div 2)) tbl)"
  by (cases tbl) (auto simp: halves_def list_ex_iff)

lemma firstLineIndex_third:
  "length a \<noteq> 20 \<Longrightarrow> length b \<noteq> 20 \<Longrightarrow> length c = 20 \<Longrightarrow>
   firstLineIndex 20 (a # b # c # rest) 0 = Inr 3"
  by (simp add: firstLineIndex.simps)

lemma firstLineIndex_second:
  "length a \<noteq> 20 \<Longrightarrow> length b = 20 \<Longrightarrow> firstLineIndex 20 (a # b # rest) 0 = Inr 2"
  by (simp add: firstLineIndex.simps)

lemma number_text_str_sample: "number_text (str_sample v)"
  by (cases v)
     (simp_all add: str_sample_def number_text_def plain_token_def isspace_def)

lemma sampleDictionary_rows:
  "tempLine sampleDictionary 0 = replicate 20 (PyFloat 1)"
  "tempLine sampleDictionary 1 =
     [PyInt 0, PyInt 0, PyInt 0, PyInt 0, PyInt 0, PyInt 0, PyInt 0, PyInt 0, PyInt 0,
      PyFloat 0.5,
      PyInt 0, PyInt 0, PyInt 0, PyInt 0, PyInt 0, PyInt 0, PyInt 0, PyInt 0, PyInt 0,
      PyFloat 2]"
  by (simp_all add: tempLine_def sampleDictionary_def sampleElements_def)

text \<open>
  Claim C5 asks for the round trip on every dictionary with a recognized type. The
  reader takes the first line with 20 tokens for the header line before the table;
  \<^verbatim>\<open>makeSKF\<close> writes such a header line only when \<open>cVec\<close> has 8 entries. With an
  empty \<open>cVec\<close> the first line with 20 tokens is the row of the first grid point, and
  the reader drops it: two rows are written, one is read back.
\<close>

theorem round_trip_counterexample:
  "type (sampleDictionary\<lparr>cVec := []\<rparr>) = ''homonuclear''
   \<and> map (\<lambda>i. map val (tempLine (sampleDictionary\<lparr>cVec := []\<rparr>)
                           (val (gridDist (sampleDictionary\<lparr>cVec := []\<rparr>)) * real i)))
       [0..<nGridPoints (sampleDictionary\<lparr>cVec := []\<rparr>)]
     = [replicate 20 1, [0, 0, 0, 0, 0, 0, 0, 0, 0, 0.5, 0, 0, 0, 0, 0, 0, 0, 0, 0, 2]]
   \<and> plotSKF_tables str_sample float_sample
       (concat (snd (makeSKF str_sample (sampleDictionary\<lparr>cVec := []\<rparr>)))) =
       Inr (1, [[0, 0, 0, 0, 0, 0, 0, 0, 0, 0.5]], [[0, 0, 0, 0, 0, 0, 0, 0, 0, 2]])"
proof -
  let ?pD = "sampleDictionary\<lparr>cVec := []\<rparr>"
  let ?lines = "snd (makeSKF str_sample ?pD)"
  let ?row1 = "[''0'', ''0'', ''0'', ''0'', ''0'', ''0'', ''0'', ''0'', ''0'', ''0.5'',
                ''0'', ''0'', ''0'', ''0'', ''0'', ''0'', ''0'', ''0'', ''0'', ''2.0'']"
  let ?LS = "[[''1.0'', ''2''],
              [''0'', ''0.5'', ''0.5'', ''0.5'', ''0.5'', ''0.5'', ''0.5'', ''0'', ''2'', ''2''],
              [''12.01'', ''7'', ''0'', ''0'', ''0'', ''0'', ''0'', ''0'', ''0'', ''0'', ''0'', ''0''],
              replicate 20 ''1.0'',
              ?row1,
              [''Spline''], [''1'', ''7''], [''0'', ''0'', ''-1''],
              [''1'', ''7'', ''0'', ''0'', ''0'', ''0'', ''0'', ''0'']]"
  have up: "[0..<2] = [0, Suc 0]" by (simp add: upt_rec)
  have rows: "tempLine ?pD 0 = replicate 20 (PyFloat 1)"
    "tempLine ?pD 1 =
     [PyInt 0, PyInt 0, PyInt 0, PyInt 0, PyInt 0, PyInt 0, PyInt 0, PyInt 0, PyInt 0,
      PyFloat 0.5,
      PyInt 0, PyInt 0, PyInt 0, PyInt 0, PyInt 0, PyInt 0, PyInt 0, PyInt 0, PyInt 0,
      PyFloat 2]"
    by (simp_all add: tempLine_def sampleDictionary_def sampleElements_def)
  have t: "type ?pD = ''homonuclear''" by (simp add: sampleDictionary_def)
  have h: "nGridPoints ?pD = 2" "val (gridDist ?pD) = 1"
    by (simp_all add: sampleDictionary_def)
  have hd: "SKF_header ?pD =
      [[Num (PyFloat 1), Num (PyInt 2)],
       map Num [PyInt 0, PyFloat 0.5, PyFloat 0.5, PyFloat 0.5, PyFloat 0.5, PyFloat 0.5,
                PyFloat 0.5, PyInt 0, PyInt 2, PyInt 2],
       map Num [PyFloat 12.01, PyInt 7, PyInt 0, PyInt 0, PyInt 0, PyInt 0, PyInt 0,
                PyInt 0, PyInt 0, PyInt 0, PyInt 0, PyInt 0]]"
    by (simp add: SKF_header_def sampleDictionary_def eval_nat_numeral)
  have sp: "SKF_spline ?pD =
      [[Str ''Spline''], map Num [PyInt 1, PyInt 7], map Num [PyInt 0, PyInt 0, PyInt (- 1)],
       map Num [PyInt 1, PyInt 7, PyInt 0, PyInt 0, PyInt 0, PyInt 0, PyInt 0, PyInt 0]]"
    by (simp add: SKF_spline_def sampleDictionary_def)
  have tbl: "map (\<lambda>i. map val (tempLine ?pD (val (gridDist ?pD) * real i)))
               [0..<nGridPoints ?pD]
     = [replicate 20 1, [0, 0, 0, 0, 0, 0, 0, 0, 0, 0.5, 0, 0, 0, 0, 0, 0, 0, 0, 0, 2]]"
    unfolding h up by (simp add: rows eval_nat_numeral)
  have e: "expandedLines str_sample float_sample (concat ?lines) = Inr ?lines"
    by (rule written_expandedLines) (rule number_text_str_sample)
  have LS: "map split_ws ?lines = ?LS"
    unfolding written_split [of str_sample, OF number_text_str_sample] SKF_lineListList_parts
      hd sp h up
    by (simp add: rows str_sample_def eval_nat_numeral)
  have ne: "?lines \<noteq> []" by (simp add: makeSKF_render SKF_lineListList_parts hd)
  have l0: "?lines ! 0 = render str_sample [Num (PyFloat 1), Num (PyInt 2)]"
    by (simp add: makeSKF_render SKF_lineListList_parts hd)
  have at: "CHR ''@'' \<notin> set (?lines ! 0)"
    unfolding l0 by (simp add: render_def str_sample_def)
  have fn: "first_number float_sample ?lines 0 = Inr 1"
    using ne unfolding first_number_def l0
    by (simp add: render_def str_sample_def split_ws_def isspace_def to_float_def
          float_sample_def)
  have fl: "firstLineIndex 20 ?LS 0 = Inr 4"
    by (simp add: firstLineIndex.simps)
  have al: "afterLineIndex ?LS = 5"
    by (simp add: afterLineIndex_def upt_rec)
  have tk: "take (5 - 4) (drop 4 ?LS) = [?row1]" by simp
  have tb: "mapM (mapM (to_float float_sample)) [?row1]
      = Inr [[0, 0, 0, 0, 0, 0, 0, 0, 0, 0.5, 0, 0, 0, 0, 0, 0, 0, 0, 0, 2]]"
    by (simp add: to_float_def float_sample_def)
  have hv: "halves 20 [[0, 0, 0, 0, 0, 0, 0, 0, 0, 0.5, 0, 0, 0, 0, 0, 0, 0, 0, 0, 2 :: real]]
      = Inr ([[0, 0, 0, 0, 0, 0, 0, 0, 0, 0.5]], [[0, 0, 0, 0, 0, 0, 0, 0, 0, 2]])"
    by (simp add: halves_def)
  have p: "plotSKF_tables str_sample float_sample (concat ?lines) =
       Inr (1, [[0, 0, 0, 0, 0, 0, 0, 0, 0, 0.5]], [[0, 0, 0, 0, 0, 0, 0, 0, 0, 2]])"
    unfolding plotSKF_tables_def e
    by (simp only: sum.case ne at if_False Let_def fn LS fl al tk tb hv prod.case)
  from t tbl p show ?thesis by blast
qed

text \<open>
  Claim C5 as the code has it. Let the type be recognized, let \<open>cVec\<close> have 8
  entries, let the second line of a homonuclear file not have 20 entries, and let
  there be at least one grid point. Let \<^verbatim>\<open>str\<close> write every number as a token without
  comma, asterisk or at sign that is not \<open>Spline\<close>, and let \<^verbatim>\<open>float\<close> read the
  grid distance and every number of the table back from its text. Then reading the
  written file gives the grid distance and the written table, exactly: the first ten
  columns of every row in \<open>HTable\<close>, the last ten in \<open>STable\<close>.
\<close>

theorem makeSKF_plotSKF_round_trip:
  assumes type: "type pD = ''homonuclear'' \<or> type pD = ''heteronuclear''"
      and cVec: "length (cVec pD) = 8"
      and line2: "type pD = ''homonuclear'' \<longrightarrow>
                    length (EVec pD) + 1 + length (UVec pD) + length (fVec pD) \<noteq> 20"
      and points: "0 < nGridPoints pD"
      and texts: "\<forall>v. number_text (str v)"
      and grid: "float (str (gridDist pD)) = Some (val (gridDist pD))"
      and reads: "\<forall>i<nGridPoints pD. \<forall>v \<in> set (tempLine pD (val (gridDist pD) * real i)).
                   float (str v) = Some (val v)"
  shows "(let integralTable =
                map (\<lambda>i. map val (tempLine pD (val (gridDist pD) * real i)))
                  [0..<nGridPoints pD]
          in plotSKF_tables str float (concat (snd (makeSKF str pD))) =
               Inr (val (gridDist pD),
                    map (take 10) integralTable, map (drop 10) integralTable))"
proof -
  let ?n = "nGridPoints pD"
  let ?rows = "map (\<lambda>i. tempLine pD (val (gridDist pD) * real i)) [0..<?n]"
  let ?tbl = "map (map val) ?rows"
  let ?H = "map (map (pystr str)) (SKF_header pD)"
  let ?T = "map (map str) ?rows"
  let ?S = "map (map (pystr str)) (SKF_spline pD)"
  let ?LS = "?H @ ?T @ ?S"
  let ?lines = "snd (makeSKF str pD)"
  from texts have tx: "\<And>v. number_text (str v)" by blast
  have e: "expandedLines str float (concat ?lines) = Inr ?lines"
    by (rule written_expandedLines [OF tx])
  have LS: "map split_ws ?lines = ?LS"
    unfolding written_split [OF tx] SKF_lineListList_parts by (simp add: comp_def)
  have len: "length ?lines = length (SKF_header pD) + ?n + 4"
    by (simp add: makeSKF_render SKF_lineListList_parts SKF_spline_def)
  then have ne: "?lines \<noteq> []" by auto
  have l0: "split_ws (?lines ! 0) = [str (gridDist pD), str (PyInt (int ?n))]"
  proof -
    have "split_ws (?lines ! 0) = map split_ws ?lines ! 0"
      using ne by (simp add: nth_map)
    also have "\<dots> = [str (gridDist pD), str (PyInt (int ?n))]"
      unfolding LS by (simp add: SKF_header_def)
    finally show ?thesis .
  qed
  have at: "CHR ''@'' \<notin> set (?lines ! 0)"
  proof -
    have "?lines ! 0 = render str [Num (gridDist pD), Num (PyInt (int ?n))]"
      by (simp add: makeSKF_render SKF_lineListList_parts SKF_header_def)
    moreover have "list_all clean (str v)" for v
      using number_text_clean [OF tx] .
    ultimately show ?thesis
      by (auto simp: render_def list_all_iff clean_def)
  qed
  have fn: "first_number float ?lines 0 = Inr (val (gridDist pD))"
    using ne by (simp add: first_number_def l0 to_float_def grid)
  have first: "firstLineIndex 20 ?LS 0 = Inr (length (SKF_header pD))"
  proof (cases "type pD = ''homonuclear''")
    case True
    with line2 have l2: "length (EVec pD) + 1 + length (UVec pD) + length (fVec pD) \<noteq> 20"
      by blast
    have H: "?H = [[str (gridDist pD), str (PyInt (int ?n))],
                   map str (EVec pD @ [SPE pD] @ UVec pD @ fVec pD),
                   map str ([mass pD] @ cVec pD @ [snd (domainTB pD)] @ replicate 10 (PyInt 0))]"
      using True by (simp add: SKF_header_def comp_def)
    have "firstLineIndex 20 ?LS 0 = Inr 3"
      unfolding H using l2 cVec by (simp add: firstLineIndex_third)
    then
    show ?thesis using True by (simp add: SKF_header_def)
  next
    case False
    with type have het: "type pD = ''heteronuclear''" by blast
    have H: "?H = [[str (gridDist pD), str (PyInt (int ?n))],
                   map str ([PyInt 12345] @ cVec pD @ [snd (domainTB pD)] @ replicate 10 (PyInt 0))]"
      using False het by (simp add: SKF_header_def comp_def)
    have "firstLineIndex 20 ?LS 0 = Inr 2"
      unfolding H using cVec by (simp add: firstLineIndex_second)
    then
    show ?thesis using False het by (simp add: SKF_header_def)
  qed
  have no_spline: "''Spline'' \<noteq> str v" for v
    using tx [of v] by (auto simp: number_text_def)
  have after: "afterLineIndex ?LS = length (SKF_header pD) + ?n"
  proof -
    have "?LS = (?H @ ?T) @ [''Spline''] # tl ?S"
      by (simp add: SKF_spline_def)
    moreover have "''Spline'' \<notin> set l" if "l \<in> set (tl ?S)" for l
      using that no_spline by (auto simp: SKF_spline_def)
    ultimately have "afterLineIndex ?LS = length (?H @ ?T)"
      using afterLineIndex_marker [of "[''Spline'']" "tl ?S" "?H @ ?T"] by simp
    then show ?thesis by simp
  qed
  have take: "take (length (SKF_header pD) + ?n - length (SKF_header pD))
                (drop (length (SKF_header pD)) ?LS) = ?T"
    by simp
  have parse: "mapM (mapM (to_float float)) ?T = Inr ?tbl"
    using reads by (intro mapM_rows_back) auto
  have hv: "halves 20 ?tbl = Inr (map (take (20 div 2)) ?tbl, map (drop (20 div 2)) ?tbl)"
    using points by (intro halves_rectangular [where m = 20]) (auto simp: length_tempLine)
  have ten: "(20::nat) div 2 = 10" by simp
  have "plotSKF_tables str float (concat ?lines) =
          Inr (val (gridDist pD), map (take 10) ?tbl, map (drop 10) ?tbl)"
    unfolding plotSKF_tables_def e
    by (simp only: sum.case ne at if_False Let_def fn LS first after take parse hv
          prod.case ten)
  then show ?thesis
    by (simp only: Let_def map_map comp_def)
qed


text \<open>
  The sample dictionary, with 8 entries in \<open>cVec\<close>: both rows come back, the row of
  the distance 0 that is all 1.0 and the row of the distance 1.
\<close>

theorem round_trip_sample:
  "plotSKF_tables str_sample float_sample (concat (snd (makeSKF str_sample sampleDictionary))) =
     Inr (1,
          [replicate 10 1, [0, 0, 0, 0, 0, 0, 0, 0, 0, 0.5]],
          [replicate 10 1, [0, 0, 0, 0, 0, 0, 0, 0, 0, 2]])"
proof -
  have h: "nGridPoints sampleDictionary = 2" "val (gridDist sampleDictionary) = 1"
    "gridDist sampleDictionary = PyFloat 1"
    by (simp_all add: sampleDictionary_def)
  have up: "[0..<2] = [0, Suc 0]" by (simp add: upt_rec)
  have 1: "type sampleDictionary = ''homonuclear'' \<or> type sampleDictionary = ''heteronuclear''"
    by (simp add: sampleDictionary_def)
  have 2: "length (cVec sampleDictionary) = 8"
    by (simp add: sampleDictionary_def)
  have 3: "type sampleDictionary = ''homonuclear'' \<longrightarrow>
             length (EVec sampleDictionary) + 1 + length (UVec sampleDictionary)
               + length (fVec sampleDictionary) \<noteq> 20"
    by (simp add: sampleDictionary_def)
  have 4: "0 < nGridPoints sampleDictionary" by (simp add: h)
  have 5: "\<forall>v. number_text (str_sample v)" by (simp add: number_text_str_sample)
  have 6: "float_sample (str_sample (gridDist sampleDictionary))
             = Some (val (gridDist sampleDictionary))"
    by (simp add: h str_sample_def float_sample_def)
  have 7: "\<forall>i<nGridPoints sampleDictionary.
             \<forall>v \<in> set (tempLine sampleDictionary (val (gridDist sampleDictionary) * real i)).
               float_sample (str_sample v) = Some (val v)"
    unfolding h by (simp add: less_Suc_eq numeral_2_eq_2 sampleDictionary_rows
                      str_sample_def float_sample_def)
  from makeSKF_plotSKF_round_trip [OF 1 2 3 4 5 6 7]
  show ?thesis
    unfolding Let_def h up by (simp add: sampleDictionary_rows eval_nat_numeral)
qed

section \<open>The frame of translateCoordinates\<close>



lemma bcol_nth: "j < length xs \<Longrightarrow> bcol xs j = xs ! j"
  by (cases "length xs = 1") (auto simp: bcol_def)

lemma map_bcol: "map (bcol v) [0..<length v] = v"
  by (rule nth_equalityI) (simp_all add: bcol_nth)














end
